theory Spec2Isabelle
  imports Main "HOL-Library.AList"
begin

section \<open>Strings and characters\<close>

text \<open>
  A JavaScript string is a sequence of UTF-16 code units. The model reads a HOL
  \<open>char\<close> as one code unit in the range U+0000..U+00FF, so \<open>length\<close> is the
  \<open>.length\<close> of the source. Code units above U+00FF are outside the model.
\<close>

definition code :: "char \<Rightarrow> nat" where
  "code c = of_char c"

text \<open>\<open>\s\<close> and \<open>String.prototype.trim\<close>: WhiteSpace and LineTerminator, within U+00FF.\<close>

definition isSpace :: "char \<Rightarrow> bool" where
  "isSpace c = (code c \<in> {9, 10, 11, 12, 13, 32, 160})"

text \<open>\<open>\w\<close> is \<open>[A-Za-z0-9_]\<close>; the \<open>i\<close> flag does not widen it (no \<open>u\<close> flag).\<close>

definition isWord :: "char \<Rightarrow> bool" where
  "isWord c = (let n = code c in
     (65 \<le> n \<and> n \<le> 90) \<or> (97 \<le> n \<and> n \<le> 122) \<or> (48 \<le> n \<and> n \<le> 57) \<or> n = 95)"

text \<open>\<open>.\<close> matches every code unit but a line terminator.\<close>

definition isLineTerminator :: "char \<Rightarrow> bool" where
  "isLineTerminator c = (code c = 10 \<or> code c = 13)"

text \<open>
  Canonicalize of the regular expression semantics: with the \<open>i\<close> flag a code unit is
  compared through \<open>toUpperCase\<close>, unless that yields several code units (U+00DF)
  or maps a non-ASCII unit to ASCII. The result is a code point, since U+00B5 and U+00FF
  have upper cases outside U+00FF.
\<close>

definition canonicalize :: "bool \<Rightarrow> char \<Rightarrow> nat" where
  "canonicalize ignoreCase c = (let n = code c in
     if \<not> ignoreCase then n
     else if 97 \<le> n \<and> n \<le> 122 then n - 32
     else if 224 \<le> n \<and> n \<le> 254 \<and> n \<noteq> 247 then n - 32
     else if n = 255 then 376
     else if n = 181 then 924
     else n)"

section \<open>Regular expressions with backtracking priorities\<close>

datatype atom =
    Chr char
  | OneOf string
  | Range char char
  | WordCh
  | SpaceCh
  | NotSpaceCh
  | AnyCh

datatype regex =
    Empty
  | Atom atom
  | Bnd
  | Seq regex regex
  | Alt regex regex
  | Opt regex
  | Star regex
  | RunOfSame nat

text \<open>
  \<open>Empty\<close> is the empty pattern, \<open>Bnd\<close> is \<open>\b\<close>. \<open>RunOfSame n\<close> is \<open>(.)\1{n,}\<close>, the only use of a back
  reference in the source: one code unit that is no line terminator, then at least
  \<open>n\<close> more that are equal to it (after Canonicalize), as many as possible first.
  Groups that are never referred to are plain grouping.
\<close>

definition atomMatches :: "bool \<Rightarrow> atom \<Rightarrow> char \<Rightarrow> bool" where
  "atomMatches ic a x = (case a of
       Chr c \<Rightarrow> canonicalize ic c = canonicalize ic x
     | OneOf cs \<Rightarrow> canonicalize ic x \<in> set (map (canonicalize ic) cs)
     | Range lo hi \<Rightarrow>
         if ic
         then list_ex (\<lambda>n. canonicalize True (char_of n) = canonicalize True x)
                [code lo ..< Suc (code hi)]
         else code lo \<le> code x \<and> code x \<le> code hi
     | WordCh \<Rightarrow> isWord x
     | SpaceCh \<Rightarrow> isSpace x
     | NotSpaceCh \<Rightarrow> \<not> isSpace x
     | AnyCh \<Rightarrow> \<not> isLineTerminator x)"

definition wordAt :: "string \<Rightarrow> nat \<Rightarrow> bool" where
  "wordAt s p = (p < length s \<and> isWord (s ! p))"

definition isBoundary :: "string \<Rightarrow> nat \<Rightarrow> bool" where
  "isBoundary s p = ((p \<noteq> 0 \<and> wordAt s (p - 1)) \<noteq> wordAt s p)"

text \<open>
  The greedy \<open>*\<close>: the ends of zero or more iterations from position \<open>p\<close>, longest
  attempts first. An iteration that consumes nothing is rejected, as RepeatMatcher does,
  so every iteration advances and \<open>length s - p + 1\<close> rounds of fuel are never used up.
\<close>

fun starEnds :: "(nat \<Rightarrow> nat list) \<Rightarrow> nat \<Rightarrow> nat \<Rightarrow> nat list" where
  "starEnds f 0 p = [p]"
| "starEnds f (Suc n) p = concat (map (starEnds f n) (filter (\<lambda>e. e \<noteq> p) (f p))) @ [p]"

definition sameRun :: "bool \<Rightarrow> string \<Rightarrow> nat \<Rightarrow> nat" where
  "sameRun ic s p =
     length (takeWhile (\<lambda>x. canonicalize ic x = canonicalize ic (s ! p)) (drop (Suc p) s))"

text \<open>
  \<open>ends r ic s p\<close>: the positions at which a match of \<open>r\<close> that starts at \<open>p\<close> in
  \<open>s\<close> can end, in the order in which the backtracking matcher tries them.
\<close>

primrec ends :: "regex \<Rightarrow> bool \<Rightarrow> string \<Rightarrow> nat \<Rightarrow> nat list" where
  "ends Empty ic s p = [p]"
| "ends (Atom a) ic s p = (if p < length s \<and> atomMatches ic a (s ! p) then [Suc p] else [])"
| "ends Bnd ic s p = (if isBoundary s p then [p] else [])"
| "ends (Seq r1 r2) ic s p = concat (map (ends r2 ic s) (ends r1 ic s p))"
| "ends (Alt r1 r2) ic s p = ends r1 ic s p @ ends r2 ic s p"
| "ends (Opt r) ic s p = filter (\<lambda>e. e \<noteq> p) (ends r ic s p) @ [p]"
| "ends (Star r) ic s p = starEnds (ends r ic s) (Suc (length s - p)) p"
| "ends (RunOfSame n) ic s p =
     (if p < length s \<and> \<not> isLineTerminator (s ! p) \<and> n \<le> sameRun ic s p
      then map (\<lambda>k. Suc p + k) (rev [n ..< Suc (sameRun ic s p)]) else [])"

definition Plus :: "regex \<Rightarrow> regex" where
  "Plus r = Seq r (Star r)"

text \<open>\<open>r{n,}\<close>: \<open>n\<close> mandatory iterations, then the greedy star.\<close>

fun AtLeast :: "nat \<Rightarrow> regex \<Rightarrow> regex" where
  "AtLeast 0 r = Star r"
| "AtLeast (Suc n) r = Seq r (AtLeast n r)"

fun seqs :: "regex list \<Rightarrow> regex" where
  "seqs [] = Empty"
| "seqs [r] = r"
| "seqs (r # rs) = Seq r (seqs rs)"

fun alts :: "regex list \<Rightarrow> regex" where
  "alts [] = Empty"
| "alts [r] = r"
| "alts (r # rs) = Alt r (alts rs)"

text \<open>\<open>lit ''abc''\<close> is the pattern \<open>abc\<close>; \<open>plusses ''abc''\<close> is \<open>a+b+c+\<close>.\<close>

definition lit :: "string \<Rightarrow> regex" where
  "lit cs = seqs (map (\<lambda>c. Atom (Chr c)) cs)"

definition plusses :: "string \<Rightarrow> regex" where
  "plusses cs = seqs (map (\<lambda>c. Plus (Atom (Chr c))) cs)"

definition wordStar :: regex where
  "wordStar = Star (Atom WordCh)"

definition spaceStar :: regex where
  "spaceStar = Star (Atom SpaceCh)"

text \<open>
  RegExpBuiltinExec: the first start position at or after \<open>lastIndex\<close> that has a match,
  with the end of the match the matcher finds first.
\<close>

definition findMatch :: "bool \<Rightarrow> regex \<Rightarrow> string \<Rightarrow> nat \<Rightarrow> (nat \<times> nat) option" where
  "findMatch ic r s lastIndex =
     (case List.find (\<lambda>i. ends r ic s i \<noteq> []) [lastIndex ..< Suc (length s)] of
        None \<Rightarrow> None
      | Some i \<Rightarrow> Some (i, hd (ends r ic s i)))"

text \<open>
  \<open>RegExp.prototype.test\<close> on a regular expression with the \<open>g\<close> flag: the search starts
  at the object's \<open>lastIndex\<close>, which is left at the end of the match, or at 0 after a
  failure. The result is the answer and the new \<open>lastIndex\<close>.
\<close>

definition testGlobal :: "bool \<Rightarrow> regex \<Rightarrow> string \<Rightarrow> nat \<Rightarrow> bool \<times> nat" where
  "testGlobal ic r s lastIndex =
     (case findMatch ic r s lastIndex of None \<Rightarrow> (False, 0) | Some (i, e) \<Rightarrow> (True, e))"

text \<open>\<open>test\<close> on a regular expression without \<open>g\<close>, or on a fresh literal: from 0.\<close>

definition testFresh :: "bool \<Rightarrow> regex \<Rightarrow> string \<Rightarrow> bool" where
  "testFresh ic r s = (findMatch ic r s 0 \<noteq> None)"

text \<open>
  The successive matches of a global \<open>match\<close> or \<open>replace\<close>: \<open>lastIndex\<close> starts at 0
  and moves to the end of each match, one further after an empty match
  (an end is never before its start, so \<open>e \<le> i\<close> is the empty match).
\<close>

function allMatchesFrom :: "bool \<Rightarrow> regex \<Rightarrow> string \<Rightarrow> nat \<Rightarrow> (nat \<times> nat) list" where
  "allMatchesFrom ic r s lastIndex =
     (case findMatch ic r s lastIndex of
        None \<Rightarrow> []
      | Some (i, e) \<Rightarrow> (i, e) # allMatchesFrom ic r s (if e \<le> i then Suc i else e))"
  by pat_completeness auto
termination
proof (relation "measure (\<lambda>(ic, r, s, lastIndex). Suc (length s) - lastIndex)")
  show "wf (measure (\<lambda>(ic, r, s, lastIndex). Suc (length s) - lastIndex))"
    by simp
next
  fix ic r s lastIndex x i e
  assume found: "findMatch ic r s lastIndex = Some x" and x: "(i, e) = x"
  from found x have "List.find (\<lambda>i. ends r ic s i \<noteq> []) [lastIndex ..< Suc (length s)] = Some i"
    by (auto simp: findMatch_def simp del: upt_Suc split: option.splits)
  then have "i \<in> set [lastIndex ..< Suc (length s)]"
    unfolding find_Some_iff by (metis nth_mem)
  then have "lastIndex \<le> i" and "i < Suc (length s)"
    by auto
  then show "((ic, r, s, if e \<le> i then Suc i else e), (ic, r, s, lastIndex))
      \<in> measure (\<lambda>(ic, r, s, lastIndex). Suc (length s) - lastIndex)"
    by auto
qed

declare allMatchesFrom.simps [simp del]

definition allMatches :: "bool \<Rightarrow> regex \<Rightarrow> string \<Rightarrow> (nat \<times> nat) list" where
  "allMatches ic r s = allMatchesFrom ic r s 0"

text \<open>
  \<open>replace(pattern, (match) => '*'.repeat(match.length))\<close>: the text between the matches
  is kept, each match becomes as many stars as it has code units.
\<close>

fun maskSpans :: "string \<Rightarrow> nat \<Rightarrow> (nat \<times> nat) list \<Rightarrow> string" where
  "maskSpans s pos [] = drop pos s"
| "maskSpans s pos ((i, e) # spans) =
     (if pos \<le> i
      then take (i - pos) (drop pos s) @ replicate (e - i) (CHR ''*'') @ maskSpans s e spans
      else maskSpans s pos spans)"

definition maskMatches :: "regex \<Rightarrow> string \<Rightarrow> string" where
  "maskMatches r s = maskSpans s 0 (allMatches True r s)"

section \<open>The profanity filter\<close>

text \<open>The tables of the filter, pattern by pattern in the order of the source; all carry
  the flags \<open>gi\<close>.\<close>

definition profanePatterns :: "regex list" where
  "profanePatterns = [
     seqs [Bnd, plusses ''fuck'', wordStar],
     seqs [Bnd, plusses ''sh'', Plus (Atom (OneOf ''i1'')), plusses ''t'', wordStar],
     seqs [Bnd, plusses ''b'', Plus (Atom (OneOf ''i1'')), plusses ''tch'', wordStar],
     seqs [Bnd, plusses ''ass'', Opt (plusses ''hole'')],
     seqs [Bnd, plusses ''d'', Plus (Atom (OneOf ''i1'')), plusses ''ck'', wordStar],
     seqs [Bnd, plusses ''cunt'', wordStar],
     seqs [Bnd, plusses ''p'', Plus (Atom (OneOf ''i1'')), plusses ''ss'', wordStar],
     seqs [Bnd, plusses ''damn'', wordStar],
     seqs [Bnd, plusses ''hell'', Bnd],
     seqs [Bnd, plusses ''crap'', wordStar],
     seqs [Bnd, plusses ''bastard'', wordStar],
     seqs [Bnd, plusses ''whore'', wordStar],
     seqs [Bnd, plusses ''slut'', wordStar],
     seqs [Bnd, plusses ''n'', Plus (Atom (OneOf ''i1'')), plusses ''g'',
           Alt (seqs [plusses ''g'', Plus (Atom (OneOf ''ae3'')), Opt (lit ''r'')])
               (seqs [plusses ''a'', Opt (lit ''h'')]),
           wordStar],
     seqs [Bnd, plusses ''fag'',
           Opt (seqs [plusses ''g'', Plus (Atom (OneOf ''o0'')), plusses ''t'']), wordStar],
     seqs [Bnd, plusses ''retard'', wordStar],
     seqs [Bnd, Atom (OneOf ''s$''), lit ''h'', Atom (OneOf ''i1!''), lit ''t'', wordStar],
     seqs [Bnd, Atom (OneOf ''a@''), Atom (OneOf ''$s''), Atom (OneOf ''s$''), wordStar],
     seqs [Bnd, Atom (OneOf ''f''), Atom (OneOf ''u''), Atom (OneOf ''c''), Atom (OneOf ''k''),
           wordStar],
     seqs [Bnd, plusses ''k'', Plus (Atom (OneOf ''i1'')), plusses ''ll'', spaceStar,
           alts [lit ''you'', lit ''yourself'', lit ''u'', lit ''urself'']],
     seqs [Bnd, Opt (seqs [lit ''go'', spaceStar]), plusses ''d'', Plus (Atom (OneOf ''i1'')),
           plusses ''e'', Bnd],
     seqs [Bnd, lit ''suicide'', Bnd],
     seqs [Bnd, lit ''kill'', spaceStar, lit ''myself''],
     seqs [Bnd, plusses ''p'', Plus (Atom (OneOf ''o0'')), plusses ''rn'', wordStar],
     seqs [Bnd, plusses ''sex'', Star (Atom (Chr (CHR ''y''))), Bnd],
     seqs [Bnd, plusses ''nude'', Opt (lit ''s''), Bnd],
     seqs [Bnd, alts [lit ''buy'', lit ''click'', lit ''subscribe'', lit ''follow''], spaceStar,
           alts [lit ''now'', lit ''here'', lit ''this'']],
     AtLeast 3 (seqs [lit ''http'', Opt (lit ''s''), lit ''://'', Plus (Atom NotSpaceCh)]),
     RunOfSame 5
   ]"

definition warningPatterns :: "regex list" where
  "warningPatterns = [
     seqs [Bnd, lit ''idiot'', wordStar],
     seqs [Bnd, lit ''stupid'', wordStar],
     seqs [Bnd, lit ''dumb'', wordStar],
     seqs [Bnd, lit ''ugly'', wordStar],
     seqs [Bnd, lit ''loser'', wordStar],
     seqs [Bnd, lit ''hate'', spaceStar, alts [lit ''you'', lit ''u''], Bnd]
   ]"

datatype severity = clean | warning | blocked

record FilterResult =
  isClean :: bool
  flagged :: bool
  reason :: "string option"
  severity :: severity

text \<open>
  The patterns are module-level objects with the \<open>g\<close> flag, so each keeps its
  \<open>lastIndex\<close> between calls: the state of the filter is one \<open>lastIndex\<close> per pattern.
\<close>

record filterState =
  profaneLastIndex :: "nat list"
  warningLastIndex :: "nat list"

definition initialFilterState :: filterState where
  "initialFilterState =
     \<lparr> profaneLastIndex = replicate (length profanePatterns) 0,
       warningLastIndex = replicate (length warningPatterns) 0 \<rparr>"

text \<open>
  \<open>for (const pattern of patterns) if (pattern.test(content)) return ...\<close>: the patterns
  up to the first that matches are tested and their \<open>lastIndex\<close> updated; the later ones
  are not touched.
\<close>

fun testFirst :: "regex list \<Rightarrow> nat list \<Rightarrow> string \<Rightarrow> bool \<times> nat list" where
  "testFirst (r # rs) (li # lis) s =
     (case testGlobal True r s li of
        (True, li') \<Rightarrow> (True, li' # lis)
      | (False, li') \<Rightarrow> (case testFirst rs lis s of (b, lis') \<Rightarrow> (b, li' # lis')))"
| "testFirst rs lis s = (False, lis)"

definition checkProfanity :: "filterState \<Rightarrow> string \<Rightarrow> FilterResult \<times> filterState" where
  "checkProfanity st content =
     (case testFirst profanePatterns (profaneLastIndex st) content of
        (True, pli) \<Rightarrow>
          (\<lparr> isClean = False, flagged = True, reason = Some ''Contains prohibited content'',
             severity = blocked \<rparr>,
           st\<lparr> profaneLastIndex := pli \<rparr>)
      | (False, pli) \<Rightarrow>
          (case testFirst warningPatterns (warningLastIndex st) content of
             (True, wli) \<Rightarrow>
               (\<lparr> isClean = True, flagged = True,
                  reason = Some ''Contains potentially offensive content'',
                  severity = warning \<rparr>,
                st\<lparr> profaneLastIndex := pli, warningLastIndex := wli \<rparr>)
           | (False, wli) \<Rightarrow>
               (\<lparr> isClean = True, flagged = False, reason = None, severity = clean \<rparr>,
                st\<lparr> profaneLastIndex := pli, warningLastIndex := wli \<rparr>)))"

text \<open>
  \<open>filterContent\<close> masks the matches of \<open>profanePatterns\<close>, one pattern after the other
  on the text masked so far. A global \<open>replace\<close> starts from \<open>lastIndex = 0\<close> and leaves
  it at 0.
\<close>

definition filterContent :: "filterState \<Rightarrow> string \<Rightarrow> string \<times> filterState" where
  "filterContent st content =
     (foldl (\<lambda>filtered pattern. maskMatches pattern filtered) content profanePatterns,
      st\<lparr> profaneLastIndex := map (\<lambda>_. 0) (profaneLastIndex st) \<rparr>)"

text \<open>
  \<open>getSpamScore\<close>. Its regular expressions are literals evaluated at each call, so they
  carry no state. \<open>capsRatio > 0.7\<close> is compared exactly, as \<open>10 * caps > 7 * length\<close>:
  the quotient is NaN for the empty text, where the comparison is false as well.
\<close>

definition capsCount :: "string \<Rightarrow> nat" where
  "capsCount content = length (allMatches False (Atom (Range (CHR ''A'') (CHR ''Z''))) content)"

definition linkCount :: "string \<Rightarrow> nat" where
  "linkCount content =
     length (allMatches False (seqs [lit ''http'', Opt (lit ''s''), lit ''://'']) content)"

definition getSpamScore :: "string \<Rightarrow> nat" where
  "getSpamScore content =
     (if 10 * capsCount content > 7 * length content \<and> length content > 10 then 2 else 0)
   + (if testFresh False (RunOfSame 4) content then 2 else 0)
   + (if testFresh False (AtLeast 3 (Atom (OneOf ''!?''))) content then 1 else 0)
   + (if linkCount content > 2 then linkCount content else 0)
   + (if testFresh True
          (seqs [Bnd, alts [lit ''free'', lit ''win'', lit ''winner'', lit ''prize'', lit ''claim'',
                            lit ''limited'', lit ''urgent''], Bnd]) content
      then 1 else 0)"

definition isSpam :: "string \<Rightarrow> bool" where
  "isSpam content = (getSpamScore content \<ge> 3)"

section \<open>Sanitization and the message schema\<close>

definition replaceChar :: "char \<Rightarrow> string \<Rightarrow> string \<Rightarrow> string" where
  "replaceChar c by s = concat (map (\<lambda>x. if x = c then by else [x]) s)"

definition trim :: "string \<Rightarrow> string" where
  "trim s = rev (dropWhile isSpace (rev (dropWhile isSpace s)))"

definition sanitizeMessage :: "string \<Rightarrow> string" where
  "sanitizeMessage content =
     take 2000 (trim
       (replaceChar (CHR 0x27) ''&#x27;''
         (replaceChar (CHR 0x22) ''&quot;''
           (replaceChar (CHR ''>'') ''&gt;''
             (replaceChar (CHR ''<'') ''&lt;'' content)))))"

text \<open>
  \<open>messageSchema.parse(data)\<close> for \<open>z.object({content: z.string().min(1).max(2000)})\<close>.
  The \<open>data\<close> of a frame is modelled by its \<open>content\<close> member: \<open>None\<close> when \<open>data\<close> is no
  object or has no string \<open>content\<close>. \<open>None\<close> as result is the ZodError.
\<close>

definition messageSchema_parse :: "string option \<Rightarrow> string option" where
  "messageSchema_parse d = (case d of
       None \<Rightarrow> None
     | Some c \<Rightarrow> if 1 \<le> length c \<and> length c \<le> 2000 then Some c else None)"

section \<open>Storage\<close>

text \<open>
  Time is \<open>Date.now()\<close>, in milliseconds. The \<open>timestamp\<close> columns of the tables hold
  whole seconds (\<open>unixepoch()\<close>), and a \<open>Date\<close> is compared as its whole seconds.
\<close>

definition toSeconds :: "int \<Rightarrow> int" where
  "toSeconds ms = ms div 1000"

record RateLimitRow =
  rl_ip :: string
  rl_actionType :: string
  rl_count :: int
  rl_windowStart :: int

definition rateRowHit :: "string \<Rightarrow> string \<Rightarrow> int \<Rightarrow> RateLimitRow \<Rightarrow> bool" where
  "rateRowHit ip actionType windowStart row =
     (rl_ip row = ip \<and> rl_actionType row = actionType \<and> rl_windowStart row \<ge> windowStart)"

text \<open>\<open>checkRateLimit\<close>: the first row in the window decides; no row means allowed.\<close>

definition checkRateLimit ::
  "RateLimitRow list \<Rightarrow> string \<Rightarrow> string \<Rightarrow> int \<Rightarrow> int \<Rightarrow> int \<Rightarrow> bool" where
  "checkRateLimit rows ip actionType limit windowSeconds now =
     (case List.find (rateRowHit ip actionType (toSeconds (now - windowSeconds * 1000))) rows of
        None \<Rightarrow> True
      | Some row \<Rightarrow> rl_count row < limit)"

text \<open>
  \<open>incrementRateLimit\<close>: the UPDATE adds one to every row of the pair whose
  \<open>windowStart\<close> lies in the last minute. The database of \<open>db.ts\<close> is sql.js behind
  \<open>drizzle-orm/sql-js\<close>, whose result of an UPDATE has no \<open>rowCount\<close>: the test
  \<open>(result.rowCount ?? 0) === 0\<close> holds after every UPDATE, and the INSERT of a new row
  with count 1 and the current second as \<open>windowStart\<close> always follows. The table has no
  unique key, so \<open>onConflictDoNothing\<close> never applies.
\<close>

definition incrementRateLimit ::
  "RateLimitRow list \<Rightarrow> string \<Rightarrow> string \<Rightarrow> int \<Rightarrow> RateLimitRow list" where
  "incrementRateLimit rows ip actionType now =
     (let hit = rateRowHit ip actionType (toSeconds (now - 60 * 1000)) in
      map (\<lambda>row. if hit row then row\<lparr> rl_count := rl_count row + 1 \<rparr> else row) rows
      @ [\<lparr> rl_ip = ip, rl_actionType = actionType, rl_count = 1,
            rl_windowStart = toSeconds now \<rparr>])"

text \<open>\<open>RATE_LIMITS\<close>: limit and window in seconds.\<close>

definition RATE_LIMITS_message :: "int \<times> int" where
  "RATE_LIMITS_message = (20, 60)"

definition RATE_LIMITS_connection :: "int \<times> int" where
  "RATE_LIMITS_connection = (5, 60)"

record ConnectedUser =
  cu_id :: string
  socketOpen :: bool
  cu_ip :: string
  partnerId :: "string option"
  roomId :: "string option"

record WaitingUser =
  wu_id :: string
  socketId :: string
  wu_ip :: string
  joinedAt :: int

record ChatSession =
  cs_id :: string
  user1Id :: string
  user2Id :: string
  user1Ip :: string
  user2Ip :: string
  startedAt :: int
  messageCount :: nat
  lastActivity :: int

record ChatMessage =
  cm_id :: string
  cm_content :: string
  senderId :: string
  timestamp :: int
  cm_type :: string

record ChatMessageRow =
  row_sessionId :: string
  row_senderIp :: string
  row_content :: string
  row_flagged :: bool
  row_flagReason :: "string option"

text \<open>
  The state of the server: the module-level \<open>connectedUsers\<close> map, the in-memory maps and
  counters of \<open>DatabaseStorage\<close>, the tables that the modelled paths read or append to,
  and the \<open>lastIndex\<close> fields of the filter's patterns. A JavaScript \<open>Map\<close> iterates in
  insertion order, so those that are iterated are association lists: \<open>AList.update\<close>
  is \<open>Map.set\<close> (an existing key keeps its place), \<open>AList.delete\<close> is \<open>Map.delete\<close>.
  The tables \<open>chat_sessions\<close>, \<open>daily_stats\<close> and \<open>hourly_stats\<close> are only written
  by these paths and are left out. Database calls are taken to succeed.
\<close>

record server =
  connectedUsers :: "string \<rightharpoonup> ConnectedUser"
  waitingUsers :: "(string \<times> WaitingUser) list"
  activeChats :: "(string \<times> ChatSession) list"
  todayMessages :: nat
  lastResetDate :: string
  peakConcurrentChats :: nat
  uniqueIpsToday :: "string set"
  bannedIps :: "string list"
  rateLimits :: "RateLimitRow list"
  chatMessages :: "ChatMessageRow list"
  filterSt :: filterState

text \<open>
  What a handler reads from outside: the clock, the local date as \<open>toDateString\<close> gives
  it, and the successive results of \<open>randomUUID()\<close> within the handler.
\<close>

record env =
  now :: int
  today :: string
  uuid :: "nat \<Rightarrow> string"

definition initialServer :: "string \<Rightarrow> server" where
  "initialServer date =
     \<lparr> connectedUsers = Map.empty, waitingUsers = [], activeChats = [], todayMessages = 0,
       lastResetDate = date, peakConcurrentChats = 0, uniqueIpsToday = {}, bannedIps = [],
       rateLimits = [], chatMessages = [], filterSt = initialFilterState \<rparr>"

text \<open>JavaScript truthiness of a \<open>string | null\<close>: neither \<open>null\<close> nor the empty string.\<close>

definition truthy :: "string option \<Rightarrow> bool" where
  "truthy v = (case v of None \<Rightarrow> False | Some x \<Rightarrow> x \<noteq> [])"

definition getWaitingUsers :: "server \<Rightarrow> WaitingUser list" where
  "getWaitingUsers s = sort_key joinedAt (map snd (waitingUsers s))"

definition addWaitingUser :: "WaitingUser \<Rightarrow> server \<Rightarrow> server" where
  "addWaitingUser user s =
     s\<lparr> waitingUsers := AList.update (wu_id user) user (waitingUsers s),
        uniqueIpsToday := insert (wu_ip user) (uniqueIpsToday s) \<rparr>"

definition removeWaitingUser :: "string \<Rightarrow> server \<Rightarrow> server" where
  "removeWaitingUser ident s = s\<lparr> waitingUsers := AList.delete ident (waitingUsers s) \<rparr>"

definition addActiveChat :: "ChatSession \<Rightarrow> server \<Rightarrow> server" where
  "addActiveChat chat s =
     (let chats = AList.update (cs_id chat) chat (activeChats s) in
      s\<lparr> activeChats := chats,
         peakConcurrentChats := (if length chats > peakConcurrentChats s then length chats
                                 else peakConcurrentChats s),
         uniqueIpsToday := insert (user2Ip chat) (insert (user1Ip chat) (uniqueIpsToday s)) \<rparr>)"

definition removeActiveChat :: "string \<Rightarrow> server \<Rightarrow> server" where
  "removeActiveChat ident s = s\<lparr> activeChats := AList.delete ident (activeChats s) \<rparr>"

definition incrementMessageCount :: "string \<Rightarrow> int \<Rightarrow> server \<Rightarrow> server" where
  "incrementMessageCount ident t s =
     (case map_of (activeChats s) ident of
        None \<Rightarrow> s
      | Some chat \<Rightarrow>
          s\<lparr> activeChats := AList.update ident
                (chat\<lparr> messageCount := Suc (messageCount chat), lastActivity := t \<rparr>)
                (activeChats s) \<rparr>)"

definition checkDailyReset :: "string \<Rightarrow> server \<Rightarrow> server" where
  "checkDailyReset date s =
     (if date \<noteq> lastResetDate s
      then s\<lparr> todayMessages := 0, peakConcurrentChats := 0, uniqueIpsToday := {},
              lastResetDate := date \<rparr>
      else s)"

definition incrementTodayMessages :: "string \<Rightarrow> server \<Rightarrow> server" where
  "incrementTodayMessages date s =
     (let s1 = checkDailyReset date s in s1\<lparr> todayMessages := Suc (todayMessages s1) \<rparr>)"

definition logMessage ::
  "string \<Rightarrow> string \<Rightarrow> string \<Rightarrow> bool \<Rightarrow> string option \<Rightarrow> server \<Rightarrow> server" where
  "logMessage session senderIp content isFlagged flagReason s =
     s\<lparr> chatMessages := chatMessages s @
          [\<lparr> row_sessionId = session, row_senderIp = senderIp, row_content = content,
             row_flagged = isFlagged, row_flagReason = flagReason \<rparr>] \<rparr>"

section \<open>The realtime handlers\<close>

text \<open>
  Each handler of this section is the listener of one event, run from its start to its
  end with no other listener in between; what a listener has done when it reaches an
  \<open>await\<close> is the subject of the next section.
\<close>

text \<open>The server-to-client events of \<open>socketEvents\<close>, with their data.\<close>

datatype outEvent =
    QUEUE_JOINED
  | PARTNER_FOUND string
  | MESSAGE_RECEIVED ChatMessage
  | MEDIA_RECEIVED ChatMessage
  | PARTNER_TYPING
  | PARTNER_STOPPED_TYPING
  | PARTNER_DISCONNECTED
  | BANNED
  | ERROR string
  | RATE_LIMITED string
  | MESSAGE_FLAGGED string

type_synonym frames = "(string \<times> outEvent) list"

text \<open>
  A raw inbound message: text that \<open>JSON.parse\<close> or the destructuring rejects, or a frame
  with its \<open>type\<close> and the \<open>content\<close> member of its \<open>data\<close>.
\<close>

datatype inbound = Malformed | Frame string "string option"

definition sendToUser :: "server \<Rightarrow> string \<Rightarrow> outEvent \<Rightarrow> frames" where
  "sendToUser s userId ev =
     (case connectedUsers s userId of
        None \<Rightarrow> []
      | Some user \<Rightarrow> if socketOpen user then [(userId, ev)] else [])"

definition setLink :: "string \<Rightarrow> string option \<Rightarrow> string option \<Rightarrow> server \<Rightarrow> server" where
  "setLink userId partner room s =
     (case connectedUsers s userId of
        None \<Rightarrow> s
      | Some user \<Rightarrow>
          s\<lparr> connectedUsers := (connectedUsers s)(userId \<mapsto> user\<lparr> partnerId := partner, roomId := room \<rparr>) \<rparr>)"

text \<open>
  The loop of \<open>matchUsers\<close> over its local array \<open>waitingUsers\<close>; \<open>k\<close> counts the calls
  of \<open>randomUUID()\<close> so far. The two users are objects of \<open>connectedUsers\<close>, written
  through the map one after the other.
\<close>

fun matchLoop :: "env \<Rightarrow> nat \<Rightarrow> WaitingUser list \<Rightarrow> server \<Rightarrow> server \<times> frames" where
  "matchLoop e k (user1Data # user2Data # rest) s =
     (case (connectedUsers s (wu_id user1Data), connectedUsers s (wu_id user2Data)) of
        (Some user1, Some user2) \<Rightarrow>
          (let s1 = removeWaitingUser (wu_id user2Data) (removeWaitingUser (wu_id user1Data) s);
               room = uuid e k;
               s2 = setLink (wu_id user1Data) (Some (cu_id user2)) (Some room) s1;
               s3 = setLink (wu_id user2Data) (Some (cu_id user1)) (Some room) s2;
               chatSession = \<lparr> cs_id = room, user1Id = cu_id user1, user2Id = cu_id user2,
                               user1Ip = cu_ip user1, user2Ip = cu_ip user2, startedAt = now e,
                               messageCount = 0, lastActivity = now e \<rparr>;
               s4 = addActiveChat chatSession s3;
               out = sendToUser s4 (cu_id user1) (PARTNER_FOUND room)
                   @ sendToUser s4 (cu_id user2) (PARTNER_FOUND room)
           in case matchLoop e (Suc k) rest s4 of (s5, later) \<Rightarrow> (s5, out @ later))
      | (Some user1, None) \<Rightarrow> matchLoop e k rest (addWaitingUser user1Data s)
      | (None, Some user2) \<Rightarrow> matchLoop e k rest (addWaitingUser user2Data s)
      | (None, None) \<Rightarrow> matchLoop e k rest s)"
| "matchLoop e k rest s = (s, [])"

definition matchUsers :: "env \<Rightarrow> server \<Rightarrow> server \<times> frames" where
  "matchUsers e s = matchLoop e 0 (getWaitingUsers s) s"

definition handleDisconnect :: "string \<Rightarrow> server \<Rightarrow> server \<times> frames" where
  "handleDisconnect userId s =
     (case connectedUsers s userId of
        None \<Rightarrow> (s, [])
      | Some user \<Rightarrow>
          (let out = (if truthy (partnerId user)
                      then sendToUser s (the (partnerId user)) PARTNER_DISCONNECTED else []);
               s1 = (if truthy (partnerId user) then setLink (the (partnerId user)) None None s
                     else s);
               s2 = (case connectedUsers s1 userId of
                       None \<Rightarrow> s1
                     | Some user' \<Rightarrow>
                         if truthy (roomId user') then removeActiveChat (the (roomId user')) s1
                         else s1);
               s3 = removeWaitingUser userId s2
           in (s3\<lparr> connectedUsers := (connectedUsers s3)(userId := None) \<rparr>, out)))"

definition handleJoinQueue :: "env \<Rightarrow> string \<Rightarrow> ConnectedUser \<Rightarrow> server \<Rightarrow> server \<times> frames" where
  "handleJoinQueue e userId user s =
     (if truthy (partnerId user) then (s, sendToUser s userId (ERROR ''Already in a chat''))
      else
        (let waitingUser = \<lparr> wu_id = userId, socketId = ''[object Object]'', wu_ip = cu_ip user,
                             joinedAt = now e \<rparr>;
             s1 = addWaitingUser waitingUser s;
             out = sendToUser s1 userId QUEUE_JOINED
         in case matchUsers e s1 of (s2, later) \<Rightarrow> (s2, out @ later)))"

text \<open>
  The body of the inner \<open>try\<close> of \<open>SEND_MESSAGE\<close> after \<open>messageSchema.parse\<close> has
  succeeded with \<open>content\<close>.
\<close>

definition relayMessage :: "env \<Rightarrow> string \<Rightarrow> ConnectedUser \<Rightarrow> string \<Rightarrow> server \<Rightarrow> server \<times> frames" where
  "relayMessage e userId user content s =
     (let sanitizedContent = sanitizeMessage content in
      if isSpam sanitizedContent
      then ((if truthy (roomId user)
             then logMessage (the (roomId user)) (cu_ip user) sanitizedContent True (Some ''spam'') s
             else s),
            sendToUser s userId
              (MESSAGE_FLAGGED ''Your message appears to be spam and was not sent.''))
      else
        (case checkProfanity (filterSt s) sanitizedContent of (profanityResult, st1) \<Rightarrow>
           if severity profanityResult = blocked
           then ((if truthy (roomId user)
                  then logMessage (the (roomId user)) (cu_ip user) sanitizedContent True
                         (Some ''profanity'') (s\<lparr> filterSt := st1 \<rparr>)
                  else s\<lparr> filterSt := st1 \<rparr>),
                 sendToUser s userId
                   (MESSAGE_FLAGGED ''Your message contains prohibited content and was not sent.''))
           else
             (case (if severity profanityResult = warning then filterContent st1 sanitizedContent
                    else (sanitizedContent, st1)) of (relayed, st2) \<Rightarrow>
                (let message = \<lparr> cm_id = uuid e 0, cm_content = relayed, senderId = userId,
                                 timestamp = now e, cm_type = ''user'' \<rparr>;
                     out = (case partnerId user of
                              None \<Rightarrow> []
                            | Some partner \<Rightarrow> sendToUser s partner (MESSAGE_RECEIVED message));
                     s1 = s\<lparr> filterSt := st2 \<rparr>
                 in ((if truthy (roomId user)
                      then logMessage (the (roomId user)) (cu_ip user) relayed
                             (flagged profanityResult) (reason profanityResult)
                             (incrementTodayMessages (today e)
                               (incrementMessageCount (the (roomId user)) (now e) s1))
                      else s1),
                     out)))))"

definition handleSendMessage ::
  "env \<Rightarrow> string \<Rightarrow> ConnectedUser \<Rightarrow> string option \<Rightarrow> server \<Rightarrow> server \<times> frames" where
  "handleSendMessage e userId user dat s =
     (if \<not> truthy (partnerId user)
      then (s, sendToUser s userId (ERROR ''Not connected to a partner''))
      else if \<not> checkRateLimit (rateLimits s) (cu_ip user) ''message''
                 (fst RATE_LIMITS_message) (snd RATE_LIMITS_message) (now e)
      then (s, sendToUser s userId
                 (RATE_LIMITED ''Slow down! You are sending messages too fast.''))
      else
        (let s1 = s\<lparr> rateLimits := incrementRateLimit (rateLimits s) (cu_ip user) ''message'' (now e) \<rparr>
         in case messageSchema_parse dat of
              None \<Rightarrow> (s1, sendToUser s1 userId (ERROR ''Invalid message''))
            | Some content \<Rightarrow> relayMessage e userId user content s1))"

definition handleTyping :: "outEvent \<Rightarrow> ConnectedUser \<Rightarrow> server \<Rightarrow> server \<times> frames" where
  "handleTyping ev user s =
     (s, if truthy (partnerId user) then sendToUser s (the (partnerId user)) ev else [])"

definition handleDisconnectChat :: "string \<Rightarrow> ConnectedUser \<Rightarrow> server \<Rightarrow> server \<times> frames" where
  "handleDisconnectChat userId user s =
     (let out = (if truthy (partnerId user)
                 then sendToUser s (the (partnerId user)) PARTNER_DISCONNECTED else []);
          s1 = (if truthy (partnerId user) then setLink (the (partnerId user)) None None s else s);
          s2 = (case connectedUsers s1 userId of
                  None \<Rightarrow> s1
                | Some user' \<Rightarrow>
                    if truthy (roomId user') then removeActiveChat (the (roomId user')) s1 else s1)
      in (setLink userId None None s2, out))"

text \<open>
  The \<open>message\<close> listener of one connection: the \<open>switch\<close> over the frame's type. The
  listener exists from the registration of the user on, and no frame is delivered after
  the socket has closed, so the closure's \<open>user\<close> is the object that \<open>connectedUsers\<close>
  holds under \<open>userId\<close>; without such an object nothing is handled.
\<close>

definition handleMessage :: "env \<Rightarrow> string \<Rightarrow> inbound \<Rightarrow> server \<Rightarrow> server \<times> frames" where
  "handleMessage e userId raw s =
     (case connectedUsers s userId of
        None \<Rightarrow> (s, [])
      | Some user \<Rightarrow>
          (case raw of
             Malformed \<Rightarrow> (s, [])
           | Frame type dat \<Rightarrow>
               if type = ''join_queue'' then handleJoinQueue e userId user s
               else if type = ''leave_queue'' then (removeWaitingUser userId s, [])
               else if type = ''send_message'' then handleSendMessage e userId user dat s
               else if type = ''typing'' then handleTyping PARTNER_TYPING user s
               else if type = ''stop_typing'' then handleTyping PARTNER_STOPPED_TYPING user s
               else if type = ''disconnect_chat'' then handleDisconnectChat userId user s
               else (s, [])))"

text \<open>
  The \<open>connection\<close> listener: \<open>userId\<close> is the \<open>randomUUID()\<close> of the connection. The
  frames of a refused connection are written to the socket itself, which is open.
\<close>

definition handleConnection :: "env \<Rightarrow> string \<Rightarrow> string \<Rightarrow> server \<Rightarrow> server \<times> frames" where
  "handleConnection e userId ip s =
     (if ip \<in> set (bannedIps s) then (s, [(userId, BANNED)])
      else if \<not> checkRateLimit (rateLimits s) ip ''connection''
                 (fst RATE_LIMITS_connection) (snd RATE_LIMITS_connection) (now e)
      then (s, [(userId,
                 RATE_LIMITED ''Too many connection attempts. Please wait and try again.'')])
      else
        (s\<lparr> rateLimits := incrementRateLimit (rateLimits s) ip ''connection'' (now e),
            connectedUsers := (connectedUsers s)(userId \<mapsto>
              \<lparr> cu_id = userId, socketOpen = True, cu_ip = ip, partnerId = None,
                roomId = None \<rparr>) \<rparr>,
         []))"

section \<open>Listeners at an await\<close>

text \<open>
  Every listener is an \<open>async\<close> function. It runs until it reaches an \<open>await\<close>, and
  what follows the \<open>await\<close> runs later: a frame of the same socket that has arrived by
  then is handled in between. Each handler above is one listener run from its start to
  its end with no other listener in between. Below are the parts of two listeners before
  and after their first \<open>await\<close>.
\<close>

text \<open>The entry that \<open>JOIN_QUEUE\<close> builds for a user.\<close>

definition joinEntry :: "env \<Rightarrow> string \<Rightarrow> ConnectedUser \<Rightarrow> WaitingUser" where
  "joinEntry e userId user =
     \<lparr> wu_id = userId, socketId = ''[object Object]'', wu_ip = cu_ip user, joinedAt = now e \<rparr>"

text \<open>
  \<open>JOIN_QUEUE\<close> up to \<open>await storage.addWaitingUser(waitingUser)\<close>: the call has filed
  the entry; \<open>QUEUE_JOINED\<close> and \<open>matchUsers\<close> come after the \<open>await\<close>.
\<close>

definition joinQueue_untilAwait ::
  "env \<Rightarrow> string \<Rightarrow> ConnectedUser \<Rightarrow> server \<Rightarrow> server \<times> frames" where
  "joinQueue_untilAwait e userId user s =
     (if truthy (partnerId user) then (s, sendToUser s userId (ERROR ''Already in a chat''))
      else (addWaitingUser (joinEntry e userId user) s, []))"

text \<open>
  \<open>DISCONNECT_CHAT\<close> up to \<open>await storage.removeActiveChat(user.roomId)\<close>, which is
  reached when the user has a room: the partner has been told and its fields are cleared,
  the chat is out of \<open>activeChats\<close>. The user's own fields are cleared after the
  \<open>await\<close>.
\<close>

definition disconnectChat_untilAwait :: "string \<Rightarrow> ConnectedUser \<Rightarrow> server \<Rightarrow> server \<times> frames" where
  "disconnectChat_untilAwait userId user s =
     (let out = (if truthy (partnerId user)
                 then sendToUser s (the (partnerId user)) PARTNER_DISCONNECTED else []);
          s1 = (if truthy (partnerId user) then setLink (the (partnerId user)) None None s else s);
          s2 = (case connectedUsers s1 userId of
                  None \<Rightarrow> s1
                | Some user' \<Rightarrow>
                    if truthy (roomId user') then removeActiveChat (the (roomId user')) s1 else s1)
      in (s2, out))"

definition disconnectChat_afterAwait :: "string \<Rightarrow> server \<Rightarrow> server" where
  "disconnectChat_afterAwait userId s = setLink userId None None s"


section \<open>Sample runs\<close>

definition sampleEnv :: "int \<Rightarrow> env" where
  "sampleEnv t = \<lparr> now = t, today = ''Mon Nov 02 2026'', uuid = (\<lambda>k. CHR ''r'' # replicate k (CHR ''0'')) \<rparr>"

text \<open>Two users connect, join the queue one after the other and are paired.\<close>

definition twoConnected :: server where
  "twoConnected =
     fst (handleConnection (sampleEnv 2000) ''bob'' ''10.0.0.2''
       (fst (handleConnection (sampleEnv 1000) ''alice'' ''10.0.0.1''
         (initialServer ''Mon Nov 02 2026''))))"

definition aliceWaiting :: server where
  "aliceWaiting = fst (handleMessage (sampleEnv 3000) ''alice'' (Frame ''join_queue'' None) twoConnected)"

definition pairedServer :: server where
  "pairedServer = fst (handleMessage (sampleEnv 4000) ''bob'' (Frame ''join_queue'' None) aliceWaiting)"

text \<open>
  \<open>alice\<close>, paired with \<open>bob\<close>, has sent \<open>DISCONNECT_CHAT\<close>, and its listener is at
  the \<open>await\<close>.
\<close>

definition aliceLeaving :: server where
  "aliceLeaving =
     fst (disconnectChat_untilAwait ''alice'' (the (connectedUsers pairedServer ''alice'')) pairedServer)"



section \<open>Harnesses for the stated properties\<close>

text \<open>
  The calling pattern of both rate-limited paths (\<open>connection\<close> and \<open>SEND_MESSAGE\<close>):
  \<open>checkRateLimit\<close>, and \<open>incrementRateLimit\<close> when it allowed. \<open>attempts\<close> runs it at
  the given times and is \<open>None\<close> as soon as one check refuses.
\<close>

fun attempts ::
  "RateLimitRow list \<Rightarrow> string \<Rightarrow> string \<Rightarrow> int \<Rightarrow> int \<Rightarrow> int list \<Rightarrow> RateLimitRow list option" where
  "attempts rows ip actionType limit windowSeconds [] = Some rows"
| "attempts rows ip actionType limit windowSeconds (t # ts) =
     (if checkRateLimit rows ip actionType limit windowSeconds t
      then attempts (incrementRateLimit rows ip actionType t) ip actionType limit windowSeconds ts
      else None)"

text \<open>The row that an increment at time \<open>t0\<close> inserts, with count \<open>k\<close>.\<close>

definition windowRow :: "string \<Rightarrow> string \<Rightarrow> int \<Rightarrow> int \<Rightarrow> RateLimitRow" where
  "windowRow ip actionType t0 k =
     \<lparr> rl_ip = ip, rl_actionType = actionType, rl_count = k, rl_windowStart = toSeconds t0 \<rparr>"

text \<open>Twenty sends within two tenths of a second.\<close>

definition sampleTimes :: "int list" where
  "sampleTimes = [5000, 5010, 5020, 5030, 5040, 5050, 5060, 5070, 5080, 5090,
                  5100, 5110, 5120, 5130, 5140, 5150, 5160, 5170, 5180, 5190]"

text \<open>
  The table after these sends, started from the empty table: every send has inserted
  its own row, and the row of a send has counted that send and each later one.
\<close>

definition sampleTable :: "RateLimitRow list" where
  "sampleTable = map (\<lambda>(t, k). windowRow ''10.0.0.1'' ''message'' t k)
     (zip sampleTimes [20, 19, 18, 17, 16, 15, 14, 13, 12, 11, 10, 9, 8, 7, 6, 5, 4, 3, 2, 1])"






section \<open>The pairing link\<close>

text \<open>
  The pairing link: a registered session has a partner exactly when it has a room, and
  its partner is a registered session that names it as partner and has the same room.
\<close>

definition linked :: "(string \<rightharpoonup> ConnectedUser) \<Rightarrow> bool" where
  "linked m = (\<forall>userId user. m userId = Some user \<longrightarrow>
       ((partnerId user = None) = (roomId user = None)) \<and>
       (\<forall>p. partnerId user = Some p \<longrightarrow>
          (\<exists>partner. m p = Some partner \<and> partnerId partner = Some userId
                     \<and> roomId partner = roomId user)))"

definition pairing_link_inv :: "server \<Rightarrow> bool" where
  "pairing_link_inv s = linked (connectedUsers s)"

section \<open>The matcher stays within the text\<close>

lemma starEnds_bounds:
  assumes f: "\<And>p e. e \<in> set (f p) \<Longrightarrow> p \<le> e \<and> (p \<le> L \<longrightarrow> e \<le> L)"
    and e: "e \<in> set (starEnds f n p)"
  shows "p \<le> e \<and> (p \<le> L \<longrightarrow> e \<le> L)"
  using e
proof (induction n arbitrary: p)
  case 0
  then show ?case by simp
next
  case (Suc n)
  from Suc.prems consider "e = p" | e1 where "e1 \<in> set (f p)" "e \<in> set (starEnds f n e1)"
    by auto
  then show ?case
  proof cases
    case 1
    then show ?thesis by simp
  next
    case 2
    from f[OF 2(1)] Suc.IH[OF 2(2)] show ?thesis by auto
  qed
qed

lemma ends_bounds: "e \<in> set (ends r ic s p) \<Longrightarrow> p \<le> e \<and> (p \<le> length s \<longrightarrow> e \<le> length s)"
proof (induction r arbitrary: p e)
  case (Seq r1 r2)
  from Seq.prems obtain e1 where "e1 \<in> set (ends r1 ic s p)" "e \<in> set (ends r2 ic s e1)"
    by auto
  with Seq.IH(1)[of e1 p] Seq.IH(2)[of e e1] show ?case by auto
next
  case (Star r)
  from Star.prems have "e \<in> set (starEnds (ends r ic s) (Suc (length s - p)) p)"
    by simp
  then show ?case
    by (rule starEnds_bounds[rotated]) (rule Star.IH)
next
  case (RunOfSame n)
  have "sameRun ic s p \<le> length s - Suc p"
    unfolding sameRun_def
    by (rule order_trans[OF length_takeWhile_le]) simp
  with RunOfSame show ?case
    by (auto split: if_splits)
qed (auto split: if_splits)

text \<open>
  The fuel of the star is never used up: from a position within the text, any larger
  amount gives the same ends.
\<close>

lemma starEnds_stable:
  assumes f: "\<And>p e. e \<in> set (f p) \<Longrightarrow> p \<le> e \<and> (p \<le> L \<longrightarrow> e \<le> L)"
  shows "p \<le> L \<Longrightarrow> L - p < n \<Longrightarrow> starEnds f (Suc n) p = starEnds f n p"
proof (induction n arbitrary: p)
  case 0
  then show ?case by simp
next
  case (Suc n)
  have step: "starEnds f (Suc n) e = starEnds f n e" if "e \<in> set (filter (\<lambda>e. e \<noteq> p) (f p))" for e
  proof -
    from that f[of e p] Suc.prems have "p < e" "e \<le> L" by auto
    with Suc.prems have "L - e < n" by arith
    with \<open>e \<le> L\<close> show ?thesis by (rule Suc.IH)
  qed
  have same: "map (starEnds f (Suc n)) (filter (\<lambda>e. e \<noteq> p) (f p))
      = map (starEnds f n) (filter (\<lambda>e. e \<noteq> p) (f p))"
    by (rule map_cong[OF refl]) (rule step)
  have "starEnds f (Suc (Suc n)) p
      = concat (map (starEnds f (Suc n)) (filter (\<lambda>e. e \<noteq> p) (f p))) @ [p]"
    by (rule starEnds.simps(2))
  also have "\<dots> = concat (map (starEnds f n) (filter (\<lambda>e. e \<noteq> p) (f p))) @ [p]"
    by (simp only: same)
  also have "\<dots> = starEnds f (Suc n) p"
    by (rule starEnds.simps(2)[symmetric])
  finally show ?case .
qed

lemma star_fuel_suffices:
  assumes "p \<le> length s"
  shows "starEnds (ends r ic s) (Suc (length s - p) + k) p = ends (Star r) ic s p"
proof (induction k)
  case 0
  show ?case by simp
next
  case (Suc k)
  have "starEnds (ends r ic s) (Suc (Suc (length s - p) + k)) p
      = starEnds (ends r ic s) (Suc (length s - p) + k) p"
    by (rule starEnds_stable[where L = "length s"]) (use assms ends_bounds in auto)
  with Suc show ?case by simp
qed

lemma findMatch_bounds:
  assumes "findMatch ic r s lastIndex = Some (i, e)"
  shows "lastIndex \<le> i \<and> i \<le> e \<and> e \<le> length s"
proof -
  from assms have found: "List.find (\<lambda>i. ends r ic s i \<noteq> []) [lastIndex ..< Suc (length s)] = Some i"
    and e: "e = hd (ends r ic s i)"
    by (auto simp: findMatch_def simp del: upt_Suc split: option.splits)
  from found have "i \<in> set [lastIndex ..< Suc (length s)]"
    unfolding find_Some_iff by (metis nth_mem)
  moreover from found have "ends r ic s i \<noteq> []"
    unfolding find_Some_iff by blast
  ultimately have "i \<in> set [lastIndex ..< Suc (length s)]" and "ends r ic s i \<noteq> []" .
  then have "lastIndex \<le> i" "i \<le> length s" "e \<in> set (ends r ic s i)"
    using e by auto
  with ends_bounds[of e r ic s i] show ?thesis by simp
qed

section \<open>Rate limiting\<close>

lemma toSeconds_mono: "a \<le> b \<Longrightarrow> toSeconds a \<le> toSeconds b"
  by (simp add: toSeconds_def zdiv_mono1)

lemma no_hit_later:
  assumes "\<forall>row \<in> set rows. \<not> rateRowHit ip a (toSeconds (t0 - 60000)) row" and "t0 \<le> t"
  shows "\<forall>row \<in> set rows. \<not> rateRowHit ip a (toSeconds (t - 60000)) row"
proof
  fix row assume "row \<in> set rows"
  with assms(1) have "\<not> rateRowHit ip a (toSeconds (t0 - 60000)) row" by blast
  moreover have "toSeconds (t0 - 60000) \<le> toSeconds (t - 60000)"
    using assms(2) by (intro toSeconds_mono) simp
  ultimately show "\<not> rateRowHit ip a (toSeconds (t - 60000)) row"
    by (auto simp: rateRowHit_def)
qed

lemma find_append_no_hit:
  "\<forall>row \<in> set rows. \<not> P row \<Longrightarrow> List.find P (rows @ ys) = List.find P ys"
  by (induction rows) auto

lemma check_no_hit:
  assumes "\<forall>row \<in> set rows. \<not> rateRowHit ip a (toSeconds (t - 60000)) row"
  shows "checkRateLimit rows ip a L 60 t"
proof -
  have "List.find (rateRowHit ip a (toSeconds (t - 60000))) rows = None"
    using assms by (simp add: find_None_iff)
  then show ?thesis by (simp add: checkRateLimit_def)
qed

lemma check_window_row:
  assumes "\<forall>row \<in> set rows. \<not> rateRowHit ip a (toSeconds (t - 60000)) row"
    and "toSeconds (t - 60000) \<le> toSeconds t0"
  shows "checkRateLimit (rows @ windowRow ip a t0 k # later) ip a L 60 t = (k < L)"
proof -
  have "List.find (rateRowHit ip a (toSeconds (t - 60000))) (rows @ windowRow ip a t0 k # later)
      = Some (windowRow ip a t0 k)"
    using assms(2) by (simp add: find_append_no_hit[OF assms(1)] rateRowHit_def windowRow_def)
  then show ?thesis by (simp add: checkRateLimit_def windowRow_def)
qed

lemma increment_first:
  assumes "\<forall>row \<in> set rows. \<not> rateRowHit ip a (toSeconds (t0 - 60000)) row"
  shows "incrementRateLimit rows ip a t0 = rows @ [windowRow ip a t0 1]"
proof -
  have "map (\<lambda>row. if rateRowHit ip a (toSeconds (t0 - 60000)) row
               then row\<lparr> rl_count := rl_count row + 1 \<rparr> else row) rows = rows"
    using assms by (induction rows) auto
  then show ?thesis by (simp add: incrementRateLimit_def windowRow_def)
qed

lemma increment_window_row:
  assumes "\<forall>row \<in> set rows. \<not> rateRowHit ip a (toSeconds (t - 60000)) row"
    and "toSeconds (t - 60000) \<le> toSeconds t0"
  shows "\<exists>later'. incrementRateLimit (rows @ windowRow ip a t0 k # later) ip a t
                 = rows @ windowRow ip a t0 (k + 1) # later'"
proof -
  have hit: "rateRowHit ip a (toSeconds (t - 60000)) (windowRow ip a t0 k)"
    using assms(2) by (simp add: rateRowHit_def windowRow_def)
  have same: "map (\<lambda>row. if rateRowHit ip a (toSeconds (t - 60000)) row
                    then row\<lparr> rl_count := rl_count row + 1 \<rparr> else row) rows = rows"
    using assms(1) by (induction rows) auto
  have "windowRow ip a t0 k\<lparr> rl_count := rl_count (windowRow ip a t0 k) + 1 \<rparr> = windowRow ip a t0 (k + 1)"
    by (simp add: windowRow_def)
  with hit same show ?thesis
    by (simp add: incrementRateLimit_def)
qed

lemma attempts_window_row:
  assumes "\<forall>row \<in> set rows. \<not> rateRowHit ip a (toSeconds (t0 - 60000)) row"
    and "\<forall>t \<in> set ts. t0 \<le> t \<and> toSeconds (t - 60000) \<le> toSeconds t0"
    and "attempts (rows @ windowRow ip a t0 k # later) ip a L 60 ts = Some rows'"
  shows "\<exists>later'. rows' = rows @ windowRow ip a t0 (k + int (length ts)) # later'"
  using assms(2,3)
proof (induction ts arbitrary: k later)
  case Nil
  then show ?case by auto
next
  case (Cons t ts)
  from Cons.prems(1) have t: "t0 \<le> t" "toSeconds (t - 60000) \<le> toSeconds t0" by auto
  have nh: "\<forall>row \<in> set rows. \<not> rateRowHit ip a (toSeconds (t - 60000)) row"
    using no_hit_later[OF assms(1) t(1)] .
  from increment_window_row[OF nh t(2)] obtain later1 where
    inc: "incrementRateLimit (rows @ windowRow ip a t0 k # later) ip a t
          = rows @ windowRow ip a t0 (k + 1) # later1"
    by blast
  from Cons.prems(2) have "attempts (rows @ windowRow ip a t0 (k + 1) # later1) ip a L 60 ts = Some rows'"
    by (simp add: inc split: if_splits)
  with Cons.IH[of "k + 1" later1] Cons.prems(1) show ?case by (simp add: add.assoc)
qed

lemma rate_limit_window_count:
  assumes "0 < L"
    and "\<forall>row \<in> set rows. \<not> rateRowHit ip a (toSeconds (t0 - 60000)) row"
    and "\<forall>\<tau> \<in> set (ts @ [t]). t0 \<le> \<tau> \<and> toSeconds (\<tau> - 60000) \<le> toSeconds t0"
    and "ts \<noteq> [] \<longrightarrow> hd ts = t0"
    and "attempts rows ip a L 60 ts = Some rows'"
  shows "(\<not> checkRateLimit rows' ip a L 60 t) = (int (length ts) + 1 > L)"
proof (cases ts)
  case Nil
  from assms(3) have "t0 \<le> t" by simp
  from no_hit_later[OF assms(2) this] have "checkRateLimit rows ip a L 60 t"
    by (rule check_no_hit)
  with Nil assms(1,5) show ?thesis by simp
next
  case (Cons t1 ts')
  with assms(4) have t1: "t1 = t0" by simp
  from assms(5) Cons t1 have "attempts (rows @ windowRow ip a t0 1 # []) ip a L 60 ts' = Some rows'"
    by (simp add: increment_first[OF assms(2)] split: if_splits)
  moreover from assms(3) Cons have "\<forall>t \<in> set ts'. t0 \<le> t \<and> toSeconds (t - 60000) \<le> toSeconds t0"
    by simp
  ultimately obtain later where rows': "rows' = rows @ windowRow ip a t0 (1 + int (length ts')) # later"
    using attempts_window_row[OF assms(2)] by blast
  from assms(3) have t: "t0 \<le> t" "toSeconds (t - 60000) \<le> toSeconds t0" by auto
  have "checkRateLimit rows' ip a L 60 t = (1 + int (length ts') < L)"
    unfolding rows' by (rule check_window_row[OF no_hit_later[OF assms(2) t(1)] t(2)])
  with Cons show ?thesis by auto
qed

text \<open>
  C9. For a configured limit \<open>L\<close> and window \<open>W\<close> of \<open>RATE_LIMITS\<close> and one pair of
  address and action: when no row of the pair is in the window at the first time \<open>t0\<close>,
  and the checks at the times \<open>ts\<close> all allowed and were each followed by the increment,
  all within the window of \<open>t0\<close>, then the next check, at \<open>t\<close> in that window, refuses
  exactly when \<open>length ts + 1 > L\<close>.
\<close>

theorem rate_limit_monotonicity:
  assumes "(L, W) = RATE_LIMITS_message \<or> (L, W) = RATE_LIMITS_connection"
    and "\<forall>row \<in> set rows. \<not> rateRowHit ip a (toSeconds (t0 - W * 1000)) row"
    and "\<forall>\<tau> \<in> set (ts @ [t]). t0 \<le> \<tau> \<and> toSeconds (\<tau> - W * 1000) \<le> toSeconds t0"
    and "ts \<noteq> [] \<longrightarrow> hd ts = t0"
    and "attempts rows ip a L W ts = Some rows'"
  shows "(checkRateLimit rows' ip a L W t = False) = (int (length ts) + 1 > L)"
proof -
  from assms(1) have W: "W = 60" and L: "0 < L"
    by (auto simp: RATE_LIMITS_message_def RATE_LIMITS_connection_def)
  from assms(2) W have fresh: "\<forall>row \<in> set rows. \<not> rateRowHit ip a (toSeconds (t0 - 60000)) row"
    by simp
  from assms(3) W have win: "\<forall>\<tau> \<in> set (ts @ [t]). t0 \<le> \<tau> \<and> toSeconds (\<tau> - 60000) \<le> toSeconds t0"
    by simp
  from assms(5) W have att: "attempts rows ip a L 60 ts = Some rows'"
    by simp
  from rate_limit_window_count[OF L fresh win assms(4) att] W show ?thesis
    by simp
qed

lemma sample_attempts:
  "attempts [] ''10.0.0.1'' ''message'' 20 60 sampleTimes = Some sampleTable"
  by (simp add: sampleTimes_def sampleTable_def checkRateLimit_def incrementRateLimit_def
      rateRowHit_def toSeconds_def windowRow_def)

theorem rate_limit_monotonicity_witness:
  "attempts [] ''10.0.0.1'' ''message'' 20 60 sampleTimes = Some sampleTable
   \<and> length sampleTable = 20
   \<and> hd sampleTable = windowRow ''10.0.0.1'' ''message'' 5000 20
   \<and> last sampleTable = windowRow ''10.0.0.1'' ''message'' 5190 1
   \<and> checkRateLimit sampleTable ''10.0.0.1'' ''message'' 20 60 5200 = False"
proof -
  have cfg: "(20, 60) = RATE_LIMITS_message \<or> (20, 60) = RATE_LIMITS_connection"
    by (simp add: RATE_LIMITS_message_def)
  have fresh: "\<forall>row \<in> set []. \<not> rateRowHit ''10.0.0.1'' ''message'' (toSeconds (5000 - 60 * 1000)) row"
    by simp
  have win: "\<forall>\<tau> \<in> set (sampleTimes @ [5200]).
      5000 \<le> \<tau> \<and> toSeconds (\<tau> - 60 * 1000) \<le> toSeconds 5000"
    by (simp add: sampleTimes_def toSeconds_def)
  have first: "sampleTimes \<noteq> [] \<longrightarrow> hd sampleTimes = 5000"
    by (simp add: sampleTimes_def)
  from rate_limit_monotonicity[OF cfg fresh win first sample_attempts]
  have "checkRateLimit sampleTable ''10.0.0.1'' ''message'' 20 60 5200 = False"
    by (simp add: sampleTimes_def)
  moreover have "length sampleTable = 20"
    by (simp add: sampleTable_def sampleTimes_def)
  moreover have "hd sampleTable = windowRow ''10.0.0.1'' ''message'' 5000 20"
    by (simp add: sampleTable_def sampleTimes_def)
  moreover have "last sampleTable = windowRow ''10.0.0.1'' ''message'' 5190 1"
    by (simp add: sampleTable_def sampleTimes_def)
  ultimately show ?thesis using sample_attempts by simp
qed

section \<open>Sample runs, evaluated\<close>

lemmas join_defs = handleConnection_def handleMessage_def handleJoinQueue_def matchUsers_def
  getWaitingUsers_def addWaitingUser_def removeWaitingUser_def addActiveChat_def setLink_def sendToUser_def
  checkRateLimit_def incrementRateLimit_def rateRowHit_def toSeconds_def RATE_LIMITS_connection_def
  truthy_def initialServer_def sampleEnv_def Let_def

lemmas send_defs = handleMessage_def handleSendMessage_def relayMessage_def sendToUser_def
  checkRateLimit_def incrementRateLimit_def rateRowHit_def toSeconds_def RATE_LIMITS_message_def
  truthy_def sampleEnv_def logMessage_def incrementMessageCount_def incrementTodayMessages_def
  checkDailyReset_def messageSchema_parse_def Let_def

lemmas other_defs = handleMessage_def handleTyping_def handleDisconnectChat_def setLink_def
  sendToUser_def removeActiveChat_def truthy_def sampleEnv_def Let_def

lemma twoConnected_eq: "twoConnected =
  \<lparr> connectedUsers = [''alice'' \<mapsto> \<lparr> cu_id = ''alice'', socketOpen = True, cu_ip = ''10.0.0.1'', partnerId = None, roomId = None \<rparr>,
                       ''bob'' \<mapsto> \<lparr> cu_id = ''bob'', socketOpen = True, cu_ip = ''10.0.0.2'', partnerId = None, roomId = None \<rparr>],
    waitingUsers = [], activeChats = [], todayMessages = 0,
    lastResetDate = ''Mon Nov 02 2026'', peakConcurrentChats = 0, uniqueIpsToday = {}, bannedIps = [],
    rateLimits = [\<lparr>rl_ip = ''10.0.0.1'', rl_actionType = ''connection'', rl_count = 1, rl_windowStart = 1\<rparr>,
                  \<lparr>rl_ip = ''10.0.0.2'', rl_actionType = ''connection'', rl_count = 1, rl_windowStart = 2\<rparr>],
    chatMessages = [], filterSt = initialFilterState \<rparr>"
  by (simp add: twoConnected_def join_defs)

lemma aliceWaiting_eq: "aliceWaiting =
  \<lparr> connectedUsers = [''alice'' \<mapsto> \<lparr> cu_id = ''alice'', socketOpen = True, cu_ip = ''10.0.0.1'', partnerId = None, roomId = None \<rparr>,
                       ''bob'' \<mapsto> \<lparr> cu_id = ''bob'', socketOpen = True, cu_ip = ''10.0.0.2'', partnerId = None, roomId = None \<rparr>],
    waitingUsers = [(''alice'', \<lparr> wu_id = ''alice'', socketId = ''[object Object]'', wu_ip = ''10.0.0.1'', joinedAt = 3000 \<rparr>)],
    activeChats = [], todayMessages = 0,
    lastResetDate = ''Mon Nov 02 2026'', peakConcurrentChats = 0, uniqueIpsToday = {''10.0.0.1''}, bannedIps = [],
    rateLimits = [\<lparr>rl_ip = ''10.0.0.1'', rl_actionType = ''connection'', rl_count = 1, rl_windowStart = 1\<rparr>,
                  \<lparr>rl_ip = ''10.0.0.2'', rl_actionType = ''connection'', rl_count = 1, rl_windowStart = 2\<rparr>],
    chatMessages = [], filterSt = initialFilterState \<rparr>"
  by (simp add: aliceWaiting_def twoConnected_eq join_defs)

lemma pairedServer_eq: "pairedServer =
  \<lparr> connectedUsers = [''alice'' \<mapsto> \<lparr> cu_id = ''alice'', socketOpen = True, cu_ip = ''10.0.0.1'', partnerId = Some ''bob'', roomId = Some ''r'' \<rparr>,
                       ''bob'' \<mapsto> \<lparr> cu_id = ''bob'', socketOpen = True, cu_ip = ''10.0.0.2'', partnerId = Some ''alice'', roomId = Some ''r'' \<rparr>],
    waitingUsers = [],
    activeChats = [(''r'', \<lparr>cs_id = ''r'', user1Id = ''alice'', user2Id = ''bob'',
      user1Ip = ''10.0.0.1'', user2Ip = ''10.0.0.2'', startedAt = 4000, messageCount = 0, lastActivity = 4000\<rparr>)], todayMessages = 0,
    lastResetDate = ''Mon Nov 02 2026'', peakConcurrentChats = 1, uniqueIpsToday = {''10.0.0.1'', ''10.0.0.2''}, bannedIps = [],
    rateLimits = [\<lparr>rl_ip = ''10.0.0.1'', rl_actionType = ''connection'', rl_count = 1, rl_windowStart = 1\<rparr>,
                  \<lparr>rl_ip = ''10.0.0.2'', rl_actionType = ''connection'', rl_count = 1, rl_windowStart = 2\<rparr>],
    chatMessages = [], filterSt = initialFilterState \<rparr>"
  by (simp add: pairedServer_def aliceWaiting_eq join_defs fun_upd_twist insert_commute)


lemma aliceLeaving_eq: "aliceLeaving =
  \<lparr> connectedUsers = [''alice'' \<mapsto> \<lparr> cu_id = ''alice'', socketOpen = True, cu_ip = ''10.0.0.1'', partnerId = Some ''bob'', roomId = Some ''r'' \<rparr>,
                       ''bob'' \<mapsto> \<lparr> cu_id = ''bob'', socketOpen = True, cu_ip = ''10.0.0.2'', partnerId = None, roomId = None \<rparr>],
    waitingUsers = [], activeChats = [], todayMessages = 0,
    lastResetDate = ''Mon Nov 02 2026'', peakConcurrentChats = 1, uniqueIpsToday = {''10.0.0.1'', ''10.0.0.2''}, bannedIps = [],
    rateLimits = [\<lparr>rl_ip = ''10.0.0.1'', rl_actionType = ''connection'', rl_count = 1, rl_windowStart = 1\<rparr>,
                  \<lparr>rl_ip = ''10.0.0.2'', rl_actionType = ''connection'', rl_count = 1, rl_windowStart = 2\<rparr>],
    chatMessages = [], filterSt = initialFilterState \<rparr>"
  by (simp add: aliceLeaving_def disconnectChat_untilAwait_def pairedServer_eq other_defs)

lemma idiot_sanitize: "sanitizeMessage ''idiot'' = ''idiot''"
  by code_simp

lemma idiot_not_spam: "\<not> isSpam ''idiot''"
  by code_simp

lemma idiot_check: "checkProfanity initialFilterState ''idiot'' =
  (\<lparr> isClean = True, flagged = True, reason = Some ''Contains potentially offensive content'', severity = warning \<rparr>,
   \<lparr> profaneLastIndex = replicate 29 0, warningLastIndex = [5, 0, 0, 0, 0, 0] \<rparr>)"
  by code_simp

lemma idiot_filter: "filterContent \<lparr> profaneLastIndex = replicate 29 0, warningLastIndex = [5, 0, 0, 0, 0, 0] \<rparr> ''idiot''
  = (''idiot'', \<lparr> profaneLastIndex = replicate 29 0, warningLastIndex = [5, 0, 0, 0, 0, 0] \<rparr>)"
  by code_simp

lemma damn_first: "checkProfanity initialFilterState ''damn'' =
  (\<lparr> isClean = False, flagged = True, reason = Some ''Contains prohibited content'', severity = blocked \<rparr>,
   \<lparr> profaneLastIndex = [0, 0, 0, 0, 0, 0, 0, 4, 0, 0, 0, 0, 0, 0, 0, 0, 0, 0, 0, 0, 0, 0, 0, 0, 0, 0, 0, 0, 0],
     warningLastIndex = replicate 6 0 \<rparr>)"
  by code_simp

lemma damn_second: "fst (checkProfanity
    \<lparr> profaneLastIndex = [0, 0, 0, 0, 0, 0, 0, 4, 0, 0, 0, 0, 0, 0, 0, 0, 0, 0, 0, 0, 0, 0, 0, 0, 0, 0, 0, 0, 0],
      warningLastIndex = replicate 6 0 \<rparr> ''damn'') =
   \<lparr> isClean = True, flagged = False, reason = None, severity = clean \<rparr>"
  by code_simp

lemma tag_sanitize: "sanitizeMessage ''<b>hi</b> '' = ''&lt;b&gt;hi&lt;/b&gt;''"
  by code_simp

lemma tag_not_spam: "\<not> isSpam ''&lt;b&gt;hi&lt;/b&gt;''"
  by code_simp

lemma tag_check: "fst (checkProfanity initialFilterState ''&lt;b&gt;hi&lt;/b&gt;'')
  = \<lparr> isClean = True, flagged = False, reason = None, severity = clean \<rparr>"
  by code_simp

lemma blank_sanitize: "sanitizeMessage '' '' = ''''"
  by code_simp

lemma blank_not_spam: "\<not> isSpam ''''"
  by code_simp

lemma blank_check: "fst (checkProfanity initialFilterState '''')
  = \<lparr> isClean = True, flagged = False, reason = None, severity = clean \<rparr>"
  by code_simp

section \<open>The filter keeps state between calls\<close>

text \<open>
  C5. The property: \<open>checkProfanity\<close> is a function of its text alone, so that two calls
  in a row on the same text give the same severity. The code does not have it. The first
  call on \<open>damn\<close> answers \<open>blocked\<close> and leaves the \<open>lastIndex\<close> of the pattern that
  matched at 4; the second call on the same text starts that pattern's search there,
  finds nothing, and answers \<open>clean\<close>.
\<close>

theorem checkProfanity_depends_on_earlier_calls:
  "severity (fst (checkProfanity initialFilterState ''damn'')) = blocked
   \<and> severity (fst (checkProfanity (snd (checkProfanity initialFilterState ''damn'')) ''damn'')) = clean"
  by (simp add: damn_first damn_second)

text \<open>
  C6. The property: in a message of severity \<open>warning\<close> every matched span is replaced
  by stars before the relay. The code does not have it: \<open>filterContent\<close> masks the
  matches of \<open>profanePatterns\<close> only, and the term that triggered the warning reaches the
  partner in clear. The paired user \<open>alice\<close> sends \<open>idiot\<close>, which is classified
  \<open>warning\<close>; \<open>bob\<close> receives \<open>idiot\<close>.
\<close>

theorem warning_message_reaches_partner_unmasked:
  "severity (fst (checkProfanity (filterSt pairedServer) (sanitizeMessage ''idiot''))) = warning
   \<and> snd (handleMessage (sampleEnv 5000) ''alice'' (Frame ''send_message'' (Some ''idiot'')) pairedServer)
     = [(''bob'', MESSAGE_RECEIVED \<lparr> cm_id = ''r'', cm_content = ''idiot'', senderId = ''alice'',
                                     timestamp = 5000, cm_type = ''user'' \<rparr>)]"
  by (simp add: pairedServer_eq send_defs idiot_sanitize idiot_not_spam idiot_check idiot_filter)

section \<open>Frames without a handler\<close>

text \<open>
  C2. The property: a \<open>SEND_MEDIA\<close> frame of a paired session is forwarded to the
  partner as \<open>MEDIA_RECEIVED\<close> and logged. The code does not have it: the \<open>switch\<close> has
  no case for \<open>send_media\<close>, so the frame of the paired user \<open>alice\<close> changes nothing
  and no frame goes out.
\<close>

theorem send_media_is_dropped:
  "handleMessage (sampleEnv 5000) ''alice'' (Frame ''send_media'' None) pairedServer = (pairedServer, [])"
  by (simp add: pairedServer_eq handleMessage_def)

section \<open>Matching\<close>

lemma sendToUser_event: "(to, ev) \<in> set (sendToUser s u x) \<Longrightarrow> ev = x"
  by (auto simp: sendToUser_def split: option.splits if_splits)





















section \<open>The pairing link at an await\<close>

lemma handleDisconnectChat_at_await:
  "handleDisconnectChat userId user s
     = (disconnectChat_afterAwait userId (fst (disconnectChat_untilAwait userId user s)),
        snd (disconnectChat_untilAwait userId user s))"
  by (simp add: handleDisconnectChat_def disconnectChat_untilAwait_def disconnectChat_afterAwait_def
      Let_def)

lemma handleJoinQueue_at_await:
  "handleJoinQueue e userId user s
     = (if truthy (partnerId user) then joinQueue_untilAwait e userId user s
        else (fst (matchUsers e (fst (joinQueue_untilAwait e userId user s))),
              sendToUser (fst (joinQueue_untilAwait e userId user s)) userId QUEUE_JOINED
              @ snd (matchUsers e (fst (joinQueue_untilAwait e userId user s)))))"
  by (simp add: handleJoinQueue_def joinQueue_untilAwait_def joinEntry_def Let_def split: prod.splits)

text \<open>
  C4. The property: in every reachable state a session has a partner exactly when it has
  a room, and its partner names it as partner, with the same room. The code does not have
  it. \<open>DISCONNECT_CHAT\<close> clears the fields of the partner, awaits
  \<open>storage.removeActiveChat\<close>, and clears the user's own fields only after that. When
  the paired user \<open>alice\<close> sends \<open>DISCONNECT_CHAT\<close>, the state at the \<open>await\<close> has
  \<open>alice\<close> with partner \<open>bob\<close> and \<open>bob\<close> with none. A \<open>JOIN_QUEUE\<close> of \<open>alice\<close>
  that has arrived by then is handled in this state and is refused with \<open>ERROR\<close>
  \<open>Already in a chat\<close>; when the first listener has finished, \<open>alice\<close> has no partner
  and is not in the queue. The link holds before the listener starts and again when it
  has finished.
\<close>

theorem disconnect_chat_half_unlinked:
  "pairing_link_inv pairedServer
   \<and> truthy (roomId (the (connectedUsers pairedServer ''alice'')))
   \<and> snd (disconnectChat_untilAwait ''alice'' (the (connectedUsers pairedServer ''alice'')) pairedServer)
     = [(''bob'', PARTNER_DISCONNECTED)]
   \<and> map_option partnerId (connectedUsers aliceLeaving ''alice'') = Some (Some ''bob'')
   \<and> map_option partnerId (connectedUsers aliceLeaving ''bob'') = Some None
   \<and> \<not> pairing_link_inv aliceLeaving
   \<and> handleMessage (sampleEnv 5000) ''alice'' (Frame ''join_queue'' None) aliceLeaving
     = (aliceLeaving, [(''alice'', ERROR ''Already in a chat'')])
   \<and> handleMessage (sampleEnv 5000) ''alice'' (Frame ''disconnect_chat'' None) pairedServer
     = (disconnectChat_afterAwait ''alice'' aliceLeaving, [(''bob'', PARTNER_DISCONNECTED)])
   \<and> map_option partnerId (connectedUsers (disconnectChat_afterAwait ''alice'' aliceLeaving) ''alice'')
     = Some None
   \<and> waitingUsers (disconnectChat_afterAwait ''alice'' aliceLeaving) = []
   \<and> pairing_link_inv (disconnectChat_afterAwait ''alice'' aliceLeaving)"
proof -
  have before: "pairing_link_inv pairedServer"
    by (auto simp: pairing_link_inv_def linked_def pairedServer_eq split: if_splits)
  have after: "pairing_link_inv (disconnectChat_afterAwait ''alice'' aliceLeaving)"
    by (auto simp: pairing_link_inv_def linked_def aliceLeaving_eq disconnectChat_afterAwait_def
        setLink_def split: if_splits)
  have broken: "\<not> pairing_link_inv aliceLeaving"
  proof
    assume "pairing_link_inv aliceLeaving"
    then have "linked (connectedUsers aliceLeaving)" by (simp add: pairing_link_inv_def)
    moreover have "connectedUsers aliceLeaving ''alice''
        = Some \<lparr> cu_id = ''alice'', socketOpen = True, cu_ip = ''10.0.0.1'',
                 partnerId = Some ''bob'', roomId = Some ''r'' \<rparr>"
      by (simp add: aliceLeaving_eq)
    ultimately have "\<exists>partner. connectedUsers aliceLeaving ''bob'' = Some partner
        \<and> partnerId partner = Some ''alice''"
      unfolding linked_def by fastforce
    then show False by (simp add: aliceLeaving_eq)
  qed
  have out: "snd (disconnectChat_untilAwait ''alice'' (the (connectedUsers pairedServer ''alice'')) pairedServer)
     = [(''bob'', PARTNER_DISCONNECTED)]"
    by (simp add: disconnectChat_untilAwait_def pairedServer_eq other_defs)
  have whole: "handleMessage (sampleEnv 5000) ''alice'' (Frame ''disconnect_chat'' None) pairedServer
     = (disconnectChat_afterAwait ''alice'' aliceLeaving, [(''bob'', PARTNER_DISCONNECTED)])"
    using out
    by (simp add: handleMessage_def handleDisconnectChat_at_await aliceLeaving_def pairedServer_eq)
  have rest: "truthy (roomId (the (connectedUsers pairedServer ''alice'')))"
    "map_option partnerId (connectedUsers aliceLeaving ''alice'') = Some (Some ''bob'')"
    "map_option partnerId (connectedUsers aliceLeaving ''bob'') = Some None"
    "handleMessage (sampleEnv 5000) ''alice'' (Frame ''join_queue'' None) aliceLeaving
       = (aliceLeaving, [(''alice'', ERROR ''Already in a chat'')])"
    "map_option partnerId (connectedUsers (disconnectChat_afterAwait ''alice'' aliceLeaving) ''alice'')
       = Some None"
    "waitingUsers (disconnectChat_afterAwait ''alice'' aliceLeaving) = []"
    by (simp_all add: pairedServer_eq aliceLeaving_eq disconnectChat_afterAwait_def handleMessage_def
        handleJoinQueue_def sendToUser_def setLink_def truthy_def)
  from before broken out whole rest after show ?thesis by blast
qed

section \<open>Joining the queue again\<close>

















section \<open>The message pipeline\<close>

lemma checkProfanity_reason:
  "checkProfanity st content = (r, st') \<Longrightarrow> severity r \<noteq> blocked \<Longrightarrow>
   reason r \<noteq> Some ''spam'' \<and> reason r \<noteq> Some ''profanity''"
  by (auto simp: checkProfanity_def split: prod.splits bool.splits)

lemma counters_chatMessages:
  "chatMessages (incrementTodayMessages d (incrementMessageCount r t s)) = chatMessages s"
  by (simp add: incrementTodayMessages_def incrementMessageCount_def checkDailyReset_def Let_def
      split: option.splits)

lemma relay_flagged_row:
  assumes res: "relayMessage e userId user content s = (s', out)"
    and row: "row \<in> set (drop (length (chatMessages s)) (chatMessages s'))"
    and why: "row_flagReason row = Some ''spam'' \<or> row_flagReason row = Some ''profanity''"
  shows "\<not> (\<exists>to m. (to, MESSAGE_RECEIVED m) \<in> set out)"
proof (cases "isSpam (sanitizeMessage content)")
  case True
  with res have "out = sendToUser s userId
      (MESSAGE_FLAGGED ''Your message appears to be spam and was not sent.'')"
    by (auto simp: relayMessage_def Let_def)
  then show ?thesis by (auto dest: sendToUser_event)
next
  case False
  obtain r st1 where chk: "checkProfanity (filterSt s) (sanitizeMessage content) = (r, st1)"
    by (cases "checkProfanity (filterSt s) (sanitizeMessage content)")
  show ?thesis
  proof (cases "severity r = blocked")
    case True
    with res False chk have "out = sendToUser s userId
        (MESSAGE_FLAGGED ''Your message contains prohibited content and was not sent.'')"
      by (auto simp: relayMessage_def Let_def)
    then show ?thesis by (auto dest: sendToUser_event)
  next
    case nb: False
    obtain relayed st2 where fc:
      "(if severity r = warning then filterContent st1 (sanitizeMessage content)
        else (sanitizeMessage content, st1)) = (relayed, st2)"
      by (cases "if severity r = warning then filterContent st1 (sanitizeMessage content)
                 else (sanitizeMessage content, st1)")
    from res False chk nb fc have rows:
      "drop (length (chatMessages s)) (chatMessages s') = [] \<or>
       drop (length (chatMessages s)) (chatMessages s')
         = [\<lparr> row_sessionId = the (roomId user), row_senderIp = cu_ip user, row_content = relayed,
              row_flagged = flagged r, row_flagReason = reason r \<rparr>]"
      by (auto simp: relayMessage_def Let_def logMessage_def counters_chatMessages)
    with row have "row_flagReason row = reason r" by auto
    with checkProfanity_reason[OF chk nb] why show ?thesis by simp
  qed
qed

text \<open>
  C1, as the code has it. The claim as stated fails for severity \<open>warning\<close>: the row is
  logged with \<open>flagged = true\<close> and the message is relayed.
\<close>

theorem flagged_warning_row_is_relayed:
  "chatMessages (fst (handleMessage (sampleEnv 5000) ''alice'' (Frame ''send_message'' (Some ''idiot'')) pairedServer))
     = [\<lparr> row_sessionId = ''r'', row_senderIp = ''10.0.0.1'', row_content = ''idiot'', row_flagged = True,
          row_flagReason = Some ''Contains potentially offensive content'' \<rparr>]
   \<and> snd (handleMessage (sampleEnv 5000) ''alice'' (Frame ''send_message'' (Some ''idiot'')) pairedServer)
     = [(''bob'', MESSAGE_RECEIVED \<lparr> cm_id = ''r'', cm_content = ''idiot'', senderId = ''alice'',
                                     timestamp = 5000, cm_type = ''user'' \<rparr>)]"
  by (simp add: pairedServer_eq send_defs idiot_sanitize idiot_not_spam idiot_check idiot_filter)

text \<open>
  C1, amended. When the processing of a \<open>SEND_MESSAGE\<close> appends a row with
  \<open>flagged = true\<close> whose reason is \<open>spam\<close> or \<open>profanity\<close> (the spam and the blocked
  outcome), no \<open>MESSAGE_RECEIVED\<close> frame is emitted, to the partner or to anyone.
\<close>

theorem flagged_spam_or_blocked_not_relayed:
  assumes res: "handleMessage e userId (Frame ''send_message'' dat) s = (s', out)"
    and row: "row \<in> set (drop (length (chatMessages s)) (chatMessages s'))"
    and fl: "row_flagged row"
    and why: "row_flagReason row = Some ''spam'' \<or> row_flagReason row = Some ''profanity''"
  shows "\<not> (\<exists>to m. (to, MESSAGE_RECEIVED m) \<in> set out)"
proof (cases "connectedUsers s userId")
  case None
  with res row show ?thesis by (simp add: handleMessage_def)
next
  case (Some user)
  with res have hs: "handleSendMessage e userId user dat s = (s', out)"
    by (simp add: handleMessage_def)
  define s1 where "s1 = s\<lparr> rateLimits := incrementRateLimit (rateLimits s) (cu_ip user) ''message'' (now e) \<rparr>"
  have s1: "chatMessages s1 = chatMessages s" by (simp add: s1_def)
  show ?thesis
  proof (cases "messageSchema_parse dat")
    case None
    with hs row s1 show ?thesis
      by (auto simp: handleSendMessage_def Let_def s1_def split: if_splits)
  next
    case (Some content)
    show ?thesis
    proof (cases "truthy (partnerId user) \<and> checkRateLimit (rateLimits s) (cu_ip user) ''message''
                 (fst RATE_LIMITS_message) (snd RATE_LIMITS_message) (now e)")
      case True
      with hs Some have "relayMessage e userId user content s1 = (s', out)"
        by (simp add: handleSendMessage_def Let_def s1_def)
      from relay_flagged_row[OF this] row why s1 show ?thesis by simp
    next
      case False
      with hs row show ?thesis
        by (auto simp: handleSendMessage_def Let_def split: if_splits)
    qed
  qed
qed

lemma damn_sanitize: "sanitizeMessage ''damn'' = ''damn''"
  by code_simp

lemma damn_not_spam: "\<not> isSpam ''damn''"
  by code_simp

theorem flagged_spam_or_blocked_not_relayed_witness:
  "chatMessages (fst (handleMessage (sampleEnv 5000) ''alice'' (Frame ''send_message'' (Some ''damn'')) pairedServer))
     = [\<lparr> row_sessionId = ''r'', row_senderIp = ''10.0.0.1'', row_content = ''damn'',
          row_flagged = True, row_flagReason = Some ''profanity'' \<rparr>]
   \<and> \<not> (\<exists>to m. (to, MESSAGE_RECEIVED m)
           \<in> set (snd (handleMessage (sampleEnv 5000) ''alice'' (Frame ''send_message'' (Some ''damn'')) pairedServer)))"
proof -
  define run where
    "run = handleMessage (sampleEnv 5000) ''alice'' (Frame ''send_message'' (Some ''damn'')) pairedServer"
  define row where
    "row = \<lparr> row_sessionId = ''r'', row_senderIp = ''10.0.0.1'', row_content = ''damn'',
             row_flagged = True, row_flagReason = Some ''profanity'' \<rparr>"
  have rows: "chatMessages (fst run) = [row]"
    by (simp add: run_def row_def pairedServer_eq send_defs damn_sanitize damn_not_spam damn_first)
  have res: "handleMessage (sampleEnv 5000) ''alice'' (Frame ''send_message'' (Some ''damn'')) pairedServer
      = (fst run, snd run)"
    by (simp add: run_def)
  have new: "row \<in> set (drop (length (chatMessages pairedServer)) (chatMessages (fst run)))"
    by (simp add: rows pairedServer_eq)
  have "\<not> (\<exists>to m. (to, MESSAGE_RECEIVED m) \<in> set (snd run))"
    by (rule flagged_spam_or_blocked_not_relayed[OF res new]) (simp_all add: row_def)
  with rows show ?thesis by (simp add: run_def row_def)
qed

lemma counters_fields:
  "chatMessages (incrementTodayMessages d (incrementMessageCount room t s)) = chatMessages s"
  "filterSt (incrementTodayMessages d (incrementMessageCount room t s)) = filterSt s"
  "rateLimits (incrementTodayMessages d (incrementMessageCount room t s)) = rateLimits s"
  "activeChats (incrementTodayMessages d (incrementMessageCount room t s))
     = activeChats (incrementMessageCount room t s)"
  "todayMessages (incrementTodayMessages d (incrementMessageCount room t s))
     = Suc (todayMessages (checkDailyReset d s))"
  by (simp_all add: incrementTodayMessages_def incrementMessageCount_def checkDailyReset_def Let_def
      split: option.splits)

lemma relayMessage_steps:
  assumes res: "relayMessage e userId user c s = (s', out)"
    and t: "t = sanitizeMessage c"
    and r: "r = fst (checkProfanity (filterSt s) t)"
    and relayed: "relayed = (if severity r = warning
                             then fst (filterContent (snd (checkProfanity (filterSt s) t)) t) else t)"
  shows "isSpam t \<longrightarrow>
           out = sendToUser s userId
                   (MESSAGE_FLAGGED ''Your message appears to be spam and was not sent.'')
         \<and> chatMessages s' = chatMessages s @
             (if truthy (roomId user)
              then [\<lparr> row_sessionId = the (roomId user), row_senderIp = cu_ip user, row_content = t,
                      row_flagged = True, row_flagReason = Some ''spam'' \<rparr>]
              else [])
         \<and> filterSt s' = filterSt s \<and> activeChats s' = activeChats s
         \<and> todayMessages s' = todayMessages s"
    and "\<not> isSpam t \<and> severity r = blocked \<longrightarrow>
           out = sendToUser s userId
                   (MESSAGE_FLAGGED ''Your message contains prohibited content and was not sent.'')
         \<and> chatMessages s' = chatMessages s @
             (if truthy (roomId user)
              then [\<lparr> row_sessionId = the (roomId user), row_senderIp = cu_ip user, row_content = t,
                      row_flagged = True, row_flagReason = Some ''profanity'' \<rparr>]
              else [])
         \<and> filterSt s' = snd (checkProfanity (filterSt s) t) \<and> activeChats s' = activeChats s
         \<and> todayMessages s' = todayMessages s"
    and "\<not> isSpam t \<and> severity r \<noteq> blocked \<longrightarrow>
           out = (case partnerId user of
                    None \<Rightarrow> []
                  | Some partner \<Rightarrow> sendToUser s partner (MESSAGE_RECEIVED
                      \<lparr> cm_id = uuid e 0, cm_content = relayed, senderId = userId,
                        timestamp = now e, cm_type = ''user'' \<rparr>))
         \<and> chatMessages s' = chatMessages s @
             (if truthy (roomId user)
              then [\<lparr> row_sessionId = the (roomId user), row_senderIp = cu_ip user,
                      row_content = relayed, row_flagged = flagged r, row_flagReason = reason r \<rparr>]
              else [])
         \<and> (truthy (roomId user) \<longrightarrow>
               activeChats s' = activeChats (incrementMessageCount (the (roomId user)) (now e) s)
             \<and> todayMessages s' = Suc (todayMessages (checkDailyReset (today e) s)))
         \<and> (\<not> truthy (roomId user) \<longrightarrow>
               activeChats s' = activeChats s \<and> todayMessages s' = todayMessages s)"
    and "rateLimits s' = rateLimits s"
proof -
  obtain r0 st1 where chk: "checkProfanity (filterSt s) (sanitizeMessage c) = (r0, st1)"
    by (cases "checkProfanity (filterSt s) (sanitizeMessage c)")
  obtain rel st2 where fc:
    "(if severity r0 = warning then filterContent st1 (sanitizeMessage c)
      else (sanitizeMessage c, st1)) = (rel, st2)"
    by (cases "if severity r0 = warning then filterContent st1 (sanitizeMessage c)
               else (sanitizeMessage c, st1)")
  from chk r t have r0: "r0 = r" by simp
  from fc relayed chk r t have rel: "rel = relayed"
    by (auto split: if_splits)
  show "isSpam t \<longrightarrow>
           out = sendToUser s userId
                   (MESSAGE_FLAGGED ''Your message appears to be spam and was not sent.'')
         \<and> chatMessages s' = chatMessages s @
             (if truthy (roomId user)
              then [\<lparr> row_sessionId = the (roomId user), row_senderIp = cu_ip user, row_content = t,
                      row_flagged = True, row_flagReason = Some ''spam'' \<rparr>]
              else [])
         \<and> filterSt s' = filterSt s \<and> activeChats s' = activeChats s
         \<and> todayMessages s' = todayMessages s"
    using res t by (auto simp: relayMessage_def Let_def logMessage_def)
  show "\<not> isSpam t \<and> severity r = blocked \<longrightarrow>
           out = sendToUser s userId
                   (MESSAGE_FLAGGED ''Your message contains prohibited content and was not sent.'')
         \<and> chatMessages s' = chatMessages s @
             (if truthy (roomId user)
              then [\<lparr> row_sessionId = the (roomId user), row_senderIp = cu_ip user, row_content = t,
                      row_flagged = True, row_flagReason = Some ''profanity'' \<rparr>]
              else [])
         \<and> filterSt s' = snd (checkProfanity (filterSt s) t) \<and> activeChats s' = activeChats s
         \<and> todayMessages s' = todayMessages s"
    using res t chk r0 by (auto simp: relayMessage_def Let_def logMessage_def)
  show "\<not> isSpam t \<and> severity r \<noteq> blocked \<longrightarrow>
           out = (case partnerId user of
                    None \<Rightarrow> []
                  | Some partner \<Rightarrow> sendToUser s partner (MESSAGE_RECEIVED
                      \<lparr> cm_id = uuid e 0, cm_content = relayed, senderId = userId,
                        timestamp = now e, cm_type = ''user'' \<rparr>))
         \<and> chatMessages s' = chatMessages s @
             (if truthy (roomId user)
              then [\<lparr> row_sessionId = the (roomId user), row_senderIp = cu_ip user,
                      row_content = relayed, row_flagged = flagged r, row_flagReason = reason r \<rparr>]
              else [])
         \<and> (truthy (roomId user) \<longrightarrow>
               activeChats s' = activeChats (incrementMessageCount (the (roomId user)) (now e) s)
             \<and> todayMessages s' = Suc (todayMessages (checkDailyReset (today e) s)))
         \<and> (\<not> truthy (roomId user) \<longrightarrow>
               activeChats s' = activeChats s \<and> todayMessages s' = todayMessages s)"
  proof (intro impI)
    assume a: "\<not> isSpam t \<and> severity r \<noteq> blocked"
    with res t chk r0 fc rel have s': "s' = (if truthy (roomId user)
        then logMessage (the (roomId user)) (cu_ip user) relayed (flagged r) (reason r)
               (incrementTodayMessages (today e)
                 (incrementMessageCount (the (roomId user)) (now e) (s\<lparr> filterSt := st2 \<rparr>)))
        else s\<lparr> filterSt := st2 \<rparr>)"
      and out: "out = (case partnerId user of
                    None \<Rightarrow> []
                  | Some partner \<Rightarrow> sendToUser s partner (MESSAGE_RECEIVED
                      \<lparr> cm_id = uuid e 0, cm_content = relayed, senderId = userId,
                        timestamp = now e, cm_type = ''user'' \<rparr>))"
      by (auto simp: relayMessage_def Let_def)
    have upd: "activeChats (incrementMessageCount room u (s\<lparr> filterSt := st2 \<rparr>))
          = activeChats (incrementMessageCount room u s)"
        "todayMessages (checkDailyReset d (s\<lparr> filterSt := st2 \<rparr>)) = todayMessages (checkDailyReset d s)"
      for room u d
      by (simp_all add: incrementMessageCount_def checkDailyReset_def split: option.splits)
    from s' out show "out = (case partnerId user of
                    None \<Rightarrow> []
                  | Some partner \<Rightarrow> sendToUser s partner (MESSAGE_RECEIVED
                      \<lparr> cm_id = uuid e 0, cm_content = relayed, senderId = userId,
                        timestamp = now e, cm_type = ''user'' \<rparr>))
         \<and> chatMessages s' = chatMessages s @
             (if truthy (roomId user)
              then [\<lparr> row_sessionId = the (roomId user), row_senderIp = cu_ip user,
                      row_content = relayed, row_flagged = flagged r, row_flagReason = reason r \<rparr>]
              else [])
         \<and> (truthy (roomId user) \<longrightarrow>
               activeChats s' = activeChats (incrementMessageCount (the (roomId user)) (now e) s)
             \<and> todayMessages s' = Suc (todayMessages (checkDailyReset (today e) s)))
         \<and> (\<not> truthy (roomId user) \<longrightarrow>
               activeChats s' = activeChats s \<and> todayMessages s' = todayMessages s)"
      by (simp add: logMessage_def counters_fields upd)
  qed
  show "rateLimits s' = rateLimits s"
    using res
    by (auto simp: relayMessage_def Let_def logMessage_def counters_fields
        split: if_splits prod.splits)
qed

text \<open>
  C3, as the code has it. A message of 2001 code units from a paired user within the
  limit is answered with \<open>ERROR\<close> \<open>Invalid message\<close>, not clamped and relayed, and the
  rate limiter has counted it all the same.
\<close>

theorem overlong_message_rejected_after_increment:
  "snd (handleMessage (sampleEnv 5000) ''alice'' (Frame ''send_message'' (Some (replicate 2001 (CHR ''a'')))) pairedServer)
     = [(''alice'', ERROR ''Invalid message'')]
   \<and> rateLimits (fst (handleMessage (sampleEnv 5000) ''alice'' (Frame ''send_message'' (Some (replicate 2001 (CHR ''a'')))) pairedServer))
     = rateLimits pairedServer @ [windowRow ''10.0.0.1'' ''message'' 5000 1]"
  by (simp add: pairedServer_eq send_defs windowRow_def)

text \<open>
  C3, amended. For a \<open>SEND_MESSAGE\<close> of a registered user the steps are, in this order:
  the paired gate (else \<open>ERROR\<close>, nothing changed); the rate-limit check (else
  \<open>RATE_LIMITED\<close>, nothing changed); the rate-limiter increment; the schema on the raw
  content \<open>c\<close>, a string of 1 to 2000 code units (else \<open>ERROR\<close> \<open>Invalid message\<close> and
  nothing more); sanitization, giving \<open>t\<close>; the spam check on \<open>t\<close> (\<open>MESSAGE_FLAGGED\<close>
  to the sender and, with a room, a flagged row \<open>spam\<close>; the filter is not run); the
  profanity check on \<open>t\<close> (for \<open>blocked\<close>: \<open>MESSAGE_FLAGGED\<close> and, with a room, a
  flagged row \<open>profanity\<close>); else the relay to the partner of \<open>t\<close>, filtered when the
  severity is \<open>warning\<close>, and then, with a room, the counters and the log row. A content
  of white space only passes the schema and is relayed as the empty text.
\<close>

theorem send_message_pipeline_order:
  assumes reg: "connectedUsers s userId = Some user"
    and res: "handleMessage e userId (Frame ''send_message'' dat) s = (s', out)"
    and t: "t = sanitizeMessage c"
    and r: "r = fst (checkProfanity (filterSt s) t)"
    and relayed: "relayed = (if severity r = warning
                             then fst (filterContent (snd (checkProfanity (filterSt s) t)) t) else t)"
  shows "(\<not> truthy (partnerId user) \<longrightarrow>
            s' = s \<and> out = sendToUser s userId (ERROR ''Not connected to a partner''))
       \<and> (truthy (partnerId user) \<and> \<not> checkRateLimit (rateLimits s) (cu_ip user) ''message'' 20 60 (now e) \<longrightarrow>
            s' = s \<and> out = sendToUser s userId
                      (RATE_LIMITED ''Slow down! You are sending messages too fast.''))
       \<and> (truthy (partnerId user) \<and> checkRateLimit (rateLimits s) (cu_ip user) ''message'' 20 60 (now e) \<longrightarrow>
            rateLimits s' = incrementRateLimit (rateLimits s) (cu_ip user) ''message'' (now e)
          \<and> ((dat = None \<or> (\<exists>c. dat = Some c \<and> (length c < 1 \<or> 2000 < length c))) \<longrightarrow>
                out = sendToUser s userId (ERROR ''Invalid message'')
              \<and> chatMessages s' = chatMessages s \<and> filterSt s' = filterSt s
              \<and> activeChats s' = activeChats s \<and> todayMessages s' = todayMessages s)
          \<and> (dat = Some c \<and> 1 \<le> length c \<and> length c \<le> 2000 \<longrightarrow>
                (isSpam t \<longrightarrow>
                   out = sendToUser s userId
                           (MESSAGE_FLAGGED ''Your message appears to be spam and was not sent.'')
                 \<and> chatMessages s' = chatMessages s @
                     (if truthy (roomId user)
                      then [\<lparr> row_sessionId = the (roomId user), row_senderIp = cu_ip user,
                              row_content = t, row_flagged = True, row_flagReason = Some ''spam'' \<rparr>]
                      else [])
                 \<and> filterSt s' = filterSt s \<and> activeChats s' = activeChats s
                 \<and> todayMessages s' = todayMessages s)
              \<and> (\<not> isSpam t \<and> severity r = blocked \<longrightarrow>
                   out = sendToUser s userId
                           (MESSAGE_FLAGGED ''Your message contains prohibited content and was not sent.'')
                 \<and> chatMessages s' = chatMessages s @
                     (if truthy (roomId user)
                      then [\<lparr> row_sessionId = the (roomId user), row_senderIp = cu_ip user,
                              row_content = t, row_flagged = True,
                              row_flagReason = Some ''profanity'' \<rparr>]
                      else [])
                 \<and> filterSt s' = snd (checkProfanity (filterSt s) t) \<and> activeChats s' = activeChats s
                 \<and> todayMessages s' = todayMessages s)
              \<and> (\<not> isSpam t \<and> severity r \<noteq> blocked \<longrightarrow>
                   out = sendToUser s (the (partnerId user)) (MESSAGE_RECEIVED
                           \<lparr> cm_id = uuid e 0, cm_content = relayed, senderId = userId,
                             timestamp = now e, cm_type = ''user'' \<rparr>)
                 \<and> chatMessages s' = chatMessages s @
                     (if truthy (roomId user)
                      then [\<lparr> row_sessionId = the (roomId user), row_senderIp = cu_ip user,
                              row_content = relayed, row_flagged = flagged r,
                              row_flagReason = reason r \<rparr>]
                      else [])
                 \<and> (truthy (roomId user) \<longrightarrow>
                       activeChats s' = activeChats (incrementMessageCount (the (roomId user)) (now e) s)
                     \<and> todayMessages s' = Suc (todayMessages (checkDailyReset (today e) s))))))"
proof -
  from reg res have hs: "handleSendMessage e userId user dat s = (s', out)"
    by (simp add: handleMessage_def)
  define s1 where "s1 = s\<lparr> rateLimits := incrementRateLimit (rateLimits s) (cu_ip user) ''message'' (now e) \<rparr>"
  have s1: "filterSt s1 = filterSt s" "chatMessages s1 = chatMessages s" "activeChats s1 = activeChats s"
    "todayMessages s1 = todayMessages s"
    "rateLimits s1 = incrementRateLimit (rateLimits s) (cu_ip user) ''message'' (now e)"
    "sendToUser s1 = sendToUser s"
    "activeChats (incrementMessageCount room u s1) = activeChats (incrementMessageCount room u s)"
    "todayMessages (checkDailyReset d s1) = todayMessages (checkDailyReset d s)"
    for room u d
    by (simp_all add: s1_def fun_eq_iff sendToUser_def incrementMessageCount_def checkDailyReset_def
        split: option.splits)
  have gate: "\<not> truthy (partnerId user) \<longrightarrow>
      s' = s \<and> out = sendToUser s userId (ERROR ''Not connected to a partner'')"
    using hs by (auto simp: handleSendMessage_def)
  have limit: "truthy (partnerId user) \<and> \<not> checkRateLimit (rateLimits s) (cu_ip user) ''message'' 20 60 (now e) \<longrightarrow>
      s' = s \<and> out = sendToUser s userId
                (RATE_LIMITED ''Slow down! You are sending messages too fast.'')"
    using hs by (auto simp: handleSendMessage_def RATE_LIMITS_message_def)
  have pass: "rateLimits s' = incrementRateLimit (rateLimits s) (cu_ip user) ''message'' (now e)
          \<and> ((dat = None \<or> (\<exists>c. dat = Some c \<and> (length c < 1 \<or> 2000 < length c))) \<longrightarrow>
                out = sendToUser s userId (ERROR ''Invalid message'')
              \<and> chatMessages s' = chatMessages s \<and> filterSt s' = filterSt s
              \<and> activeChats s' = activeChats s \<and> todayMessages s' = todayMessages s)
          \<and> (dat = Some c \<and> 1 \<le> length c \<and> length c \<le> 2000 \<longrightarrow>
                (isSpam t \<longrightarrow>
                   out = sendToUser s userId
                           (MESSAGE_FLAGGED ''Your message appears to be spam and was not sent.'')
                 \<and> chatMessages s' = chatMessages s @
                     (if truthy (roomId user)
                      then [\<lparr> row_sessionId = the (roomId user), row_senderIp = cu_ip user,
                              row_content = t, row_flagged = True, row_flagReason = Some ''spam'' \<rparr>]
                      else [])
                 \<and> filterSt s' = filterSt s \<and> activeChats s' = activeChats s
                 \<and> todayMessages s' = todayMessages s)
              \<and> (\<not> isSpam t \<and> severity r = blocked \<longrightarrow>
                   out = sendToUser s userId
                           (MESSAGE_FLAGGED ''Your message contains prohibited content and was not sent.'')
                 \<and> chatMessages s' = chatMessages s @
                     (if truthy (roomId user)
                      then [\<lparr> row_sessionId = the (roomId user), row_senderIp = cu_ip user,
                              row_content = t, row_flagged = True,
                              row_flagReason = Some ''profanity'' \<rparr>]
                      else [])
                 \<and> filterSt s' = snd (checkProfanity (filterSt s) t) \<and> activeChats s' = activeChats s
                 \<and> todayMessages s' = todayMessages s)
              \<and> (\<not> isSpam t \<and> severity r \<noteq> blocked \<longrightarrow>
                   out = sendToUser s (the (partnerId user)) (MESSAGE_RECEIVED
                           \<lparr> cm_id = uuid e 0, cm_content = relayed, senderId = userId,
                             timestamp = now e, cm_type = ''user'' \<rparr>)
                 \<and> chatMessages s' = chatMessages s @
                     (if truthy (roomId user)
                      then [\<lparr> row_sessionId = the (roomId user), row_senderIp = cu_ip user,
                              row_content = relayed, row_flagged = flagged r,
                              row_flagReason = reason r \<rparr>]
                      else [])
                 \<and> (truthy (roomId user) \<longrightarrow>
                       activeChats s' = activeChats (incrementMessageCount (the (roomId user)) (now e) s)
                     \<and> todayMessages s' = Suc (todayMessages (checkDailyReset (today e) s)))))"
    if ok: "truthy (partnerId user)" "checkRateLimit (rateLimits s) (cu_ip user) ''message'' 20 60 (now e)"
  proof (cases "messageSchema_parse dat")
    case None
    with hs ok have "s' = s1" "out = sendToUser s1 userId (ERROR ''Invalid message'')"
      by (auto simp: handleSendMessage_def RATE_LIMITS_message_def Let_def s1_def)
    moreover from None have "dat \<noteq> Some c \<or> \<not> (1 \<le> length c \<and> length c \<le> 2000)"
      by (auto simp: messageSchema_parse_def split: option.splits if_splits)
    ultimately show ?thesis
      by (auto simp: s1)
  next
    case (Some content)
    then have dat: "dat = Some content" "1 \<le> length content" "length content \<le> 2000"
      by (auto simp: messageSchema_parse_def split: option.splits if_splits)
    from hs ok Some have rm: "relayMessage e userId user content s1 = (s', out)"
      by (simp add: handleSendMessage_def RATE_LIMITS_message_def Let_def s1_def)
    from ok(1) obtain p where p: "partnerId user = Some p"
      by (auto simp: truthy_def split: option.splits)
    have valid: "\<not> (dat = None \<or> (\<exists>c. dat = Some c \<and> (length c < 1 \<or> 2000 < length c)))"
      using dat by auto
    show ?thesis
    proof (cases "content = c")
      case True
      note steps = relayMessage_steps[OF rm[unfolded True], of t r relayed, unfolded s1, OF t r relayed]
      show ?thesis
        apply (intro conjI)
        subgoal using steps(4) by (simp add: s1)
        subgoal using valid by blast
        subgoal using steps(1,2,3) p by simp
        done
    next
      case False
      show ?thesis
        apply (intro conjI)
        subgoal using relayMessage_steps(4)[OF rm refl refl refl] by (simp add: s1)
        subgoal using valid by blast
        subgoal using False dat by simp
        done
    qed
  qed
  from gate limit pass show ?thesis by blast
qed

theorem send_message_pipeline_order_witness:
  "snd (handleMessage (sampleEnv 5000) ''alice'' (Frame ''send_message'' (Some ''<b>hi</b> '')) pairedServer)
     = [(''bob'', MESSAGE_RECEIVED \<lparr> cm_id = ''r'', cm_content = ''&lt;b&gt;hi&lt;/b&gt;'',
                                     senderId = ''alice'', timestamp = 5000, cm_type = ''user'' \<rparr>)]
   \<and> chatMessages (fst (handleMessage (sampleEnv 5000) ''alice''
        (Frame ''send_message'' (Some ''<b>hi</b> '')) pairedServer))
     = [\<lparr> row_sessionId = ''r'', row_senderIp = ''10.0.0.1'', row_content = ''&lt;b&gt;hi&lt;/b&gt;'',
          row_flagged = False, row_flagReason = None \<rparr>]
   \<and> rateLimits (fst (handleMessage (sampleEnv 5000) ''alice''
        (Frame ''send_message'' (Some ''<b>hi</b> '')) pairedServer))
     = rateLimits pairedServer @ [windowRow ''10.0.0.1'' ''message'' 5000 1]
   \<and> snd (handleMessage (sampleEnv 5000) ''alice'' (Frame ''send_message'' (Some '' '')) pairedServer)
     = [(''bob'', MESSAGE_RECEIVED \<lparr> cm_id = ''r'', cm_content = '''', senderId = ''alice'',
                                     timestamp = 5000, cm_type = ''user'' \<rparr>)]
   \<and> snd (handleMessage (sampleEnv 5000) ''alice''
        (Frame ''send_message'' (Some (replicate 2001 (CHR ''a'')))) pairedServer)
     = [(''alice'', ERROR ''Invalid message'')]
   \<and> chatMessages (fst (handleMessage (sampleEnv 5000) ''alice''
        (Frame ''send_message'' (Some (replicate 2001 (CHR ''a'')))) pairedServer))
     = []"
proof -
  define e where "e = sampleEnv 5000"
  define user where "user = \<lparr> cu_id = ''alice'', socketOpen = True, cu_ip = ''10.0.0.1'',
                               partnerId = Some ''bob'', roomId = Some ''r'' \<rparr>"
  have reg: "connectedUsers pairedServer ''alice'' = Some user"
    by (simp add: pairedServer_eq user_def)
  have paired: "truthy (partnerId user)" and room: "truthy (roomId user)"
    by (simp_all add: user_def truthy_def)
  have allowed: "checkRateLimit (rateLimits pairedServer) (cu_ip user) ''message'' 20 60 (now e)"
    by (simp add: pairedServer_eq user_def checkRateLimit_def rateRowHit_def e_def sampleEnv_def)
  have fs: "filterSt pairedServer = initialFilterState" and logs: "chatMessages pairedServer = []"
    by (simp_all add: pairedServer_eq)
  have bob: "sendToUser pairedServer ''bob'' ev = [(''bob'', ev)]"
    and alice: "sendToUser pairedServer ''alice'' ev = [(''alice'', ev)]" for ev
    by (simp_all add: pairedServer_eq sendToUser_def)
  have inc: "incrementRateLimit (rateLimits pairedServer) ''10.0.0.1'' ''message'' 5000
      = rateLimits pairedServer @ [windowRow ''10.0.0.1'' ''message'' 5000 1]"
    by (simp add: pairedServer_eq incrementRateLimit_def rateRowHit_def toSeconds_def windowRow_def)
  define run where "run = handleMessage e ''alice'' (Frame ''send_message'' (Some ''<b>hi</b> '')) pairedServer"
  define r where "r = fst (checkProfanity (filterSt pairedServer) (sanitizeMessage ''<b>hi</b> ''))"
  define relayed where "relayed = (if severity r = warning
      then fst (filterContent (snd (checkProfanity (filterSt pairedServer) (sanitizeMessage ''<b>hi</b> '')))
                 (sanitizeMessage ''<b>hi</b> ''))
      else sanitizeMessage ''<b>hi</b> '')"
  have res: "handleMessage e ''alice'' (Frame ''send_message'' (Some ''<b>hi</b> '')) pairedServer
      = (fst run, snd run)"
    by (simp add: run_def)
  have r: "r = \<lparr> isClean = True, flagged = False, reason = None, severity = clean \<rparr>"
    by (simp add: r_def fs tag_sanitize tag_check)
  then have rel: "relayed = ''&lt;b&gt;hi&lt;/b&gt;''"
    by (simp add: relayed_def tag_sanitize)
  have ns: "\<not> isSpam (sanitizeMessage ''<b>hi</b> '')"
    by (simp add: tag_sanitize tag_not_spam)
  from send_message_pipeline_order[OF reg res refl r_def relayed_def] paired room allowed ns
  have "snd run = sendToUser pairedServer (the (partnerId user)) (MESSAGE_RECEIVED
           \<lparr> cm_id = uuid e 0, cm_content = relayed, senderId = ''alice'',
             timestamp = now e, cm_type = ''user'' \<rparr>)
      \<and> chatMessages (fst run) = chatMessages pairedServer @
           [\<lparr> row_sessionId = the (roomId user), row_senderIp = cu_ip user,
              row_content = relayed, row_flagged = flagged r, row_flagReason = reason r \<rparr>]
      \<and> rateLimits (fst run) = incrementRateLimit (rateLimits pairedServer) (cu_ip user) ''message'' (now e)"
    by (simp add: r)
  then have first: "snd run = [(''bob'', MESSAGE_RECEIVED \<lparr> cm_id = ''r'', cm_content = ''&lt;b&gt;hi&lt;/b&gt;'',
                                     senderId = ''alice'', timestamp = 5000, cm_type = ''user'' \<rparr>)]
      \<and> chatMessages (fst run) = [\<lparr> row_sessionId = ''r'', row_senderIp = ''10.0.0.1'',
          row_content = ''&lt;b&gt;hi&lt;/b&gt;'', row_flagged = False, row_flagReason = None \<rparr>]
      \<and> rateLimits (fst run) = rateLimits pairedServer @ [windowRow ''10.0.0.1'' ''message'' 5000 1]"
    by (simp add: rel r user_def bob logs inc e_def sampleEnv_def)
  define run2 where "run2 = handleMessage e ''alice'' (Frame ''send_message'' (Some '' '')) pairedServer"
  define r2 where "r2 = fst (checkProfanity (filterSt pairedServer) (sanitizeMessage '' ''))"
  define relayed2 where "relayed2 = (if severity r2 = warning
      then fst (filterContent (snd (checkProfanity (filterSt pairedServer) (sanitizeMessage '' '')))
                 (sanitizeMessage '' ''))
      else sanitizeMessage '' '')"
  have res2: "handleMessage e ''alice'' (Frame ''send_message'' (Some '' '')) pairedServer
      = (fst run2, snd run2)"
    by (simp add: run2_def)
  have r2: "r2 = \<lparr> isClean = True, flagged = False, reason = None, severity = clean \<rparr>"
    by (simp add: r2_def fs blank_sanitize blank_check)
  then have rel2: "relayed2 = ''''"
    by (simp add: relayed2_def blank_sanitize)
  have ns2: "\<not> isSpam (sanitizeMessage '' '')"
    by (simp add: blank_sanitize blank_not_spam)
  from send_message_pipeline_order[OF reg res2 refl r2_def relayed2_def] paired room allowed ns2
  have "snd run2 = sendToUser pairedServer (the (partnerId user)) (MESSAGE_RECEIVED
           \<lparr> cm_id = uuid e 0, cm_content = relayed2, senderId = ''alice'',
             timestamp = now e, cm_type = ''user'' \<rparr>)"
    by (simp add: r2)
  then have second: "snd run2 = [(''bob'', MESSAGE_RECEIVED \<lparr> cm_id = ''r'', cm_content = '''',
      senderId = ''alice'', timestamp = 5000, cm_type = ''user'' \<rparr>)]"
    by (simp add: rel2 user_def bob e_def sampleEnv_def)
  define run3 where "run3 = handleMessage e ''alice''
       (Frame ''send_message'' (Some (replicate 2001 (CHR ''a'')))) pairedServer"
  have res3: "handleMessage e ''alice''
       (Frame ''send_message'' (Some (replicate 2001 (CHR ''a'')))) pairedServer = (fst run3, snd run3)"
    by (simp add: run3_def)
  have long: "\<exists>c. Some (replicate 2001 (CHR ''a'')) = Some c \<and> (length c < 1 \<or> 2000 < length c)"
    by simp
  from send_message_pipeline_order[OF reg res3 refl refl refl, of "[]"] paired allowed long
  have "snd run3 = sendToUser pairedServer ''alice'' (ERROR ''Invalid message'')
      \<and> chatMessages (fst run3) = chatMessages pairedServer"
    by blast
  then have third: "snd run3 = [(''alice'', ERROR ''Invalid message'')] \<and> chatMessages (fst run3) = []"
    by (simp add: alice logs)
  from first second third show ?thesis
    by (simp add: run_def run2_def run3_def e_def)
qed

section \<open>Frames in the wrong state\<close>






end
